theory Spec2Isabelle
  imports Complex_Main "HOL-Library.Product_Lexorder"
begin

section \<open>Data model\<close>

text \<open>
  The pipeline moves pandas tables between CSV files and a PostgreSQL warehouse.
  A table is modelled as the list of its rows, a row as a record of its columns.
  A numeric cell is a \<open>real option\<close>: \<open>None\<close> is the missing value (an empty CSV
  cell, NaN, SQL NULL) and \<open>Some x\<close> is the number \<open>x\<close>; float64 values are read as
  the real numbers they denote, so arithmetic is that of the reals. Writing a table with
  \<open>to_csv\<close> and reading it back with \<open>read_csv\<close> is taken to return the same table.
\<close>

type_synonym date = "nat \<times> nat \<times> nat"
  \<comment> \<open>a calendar date as (year, month, day), ordered lexicographically\<close>

datatype error = FileNotFoundError | AttributeError | TypeError

text \<open>A row of a raw \<open>eia_electricity_prices_*.csv\<close> snapshot: the columns the cleaner
  reads. \<open>period\<close> is the \<open>%Y-%m\<close> text, held as year and month.\<close>

record raw_price_row =
  period :: "nat \<times> nat"
  stateid :: "string option"
  sectorName :: "string option"
  price :: "real option"
  sales :: "real option"

text \<open>A row of \<open>eia_prices_clean.csv\<close>, after the renames and with the added
  \<open>price_per_kwh\<close> column.\<close>

record price_row =
  date :: date
  state :: "string option"
  sector_name :: "string option"
  price_cents_per_kwh :: "real option"
  sales_mwh :: "real option"
  price_per_kwh :: "real option"

text \<open>A row of a \<open>datacenters_*.csv\<close> snapshot and of \<open>datacenters_clean.csv\<close>
  (the cleaner keeps the columns). A present text cell holds text that \<open>read_csv\<close>
  keeps as a string.\<close>

record facility_row =
  name :: "string option"
  company :: "string option"
  city :: "string option"
  fac_state :: "string option"
  latitude :: "real option"
  longitude :: "real option"
  capacity_mw :: "real option"
  is_ai_focused :: "bool option"
  opening_date :: "date option"
  renewable_pct :: "real option"

text \<open>A file of the raw directory with its creation time, and the two directories: the
  raw snapshots matching each glob pattern (in glob order) and the two cleaned files
  (\<open>None\<close> when the file does not exist).\<close>

record 'a snapshot =
  ctime :: real
  content :: "'a list"

record filesystem =
  raw_eia_prices :: "raw_price_row snapshot list"
  raw_datacenters :: "facility_row snapshot list"
  eia_prices_clean :: "price_row list option"
  datacenters_clean :: "facility_row list option"

subsection \<open>config.py\<close>

definition US_STATES :: "string list" where
  "US_STATES =
    [''AL'', ''AK'', ''AZ'', ''AR'', ''CA'', ''CO'', ''CT'', ''DE'', ''FL'', ''GA'',
     ''HI'', ''ID'', ''IL'', ''IN'', ''IA'', ''KS'', ''KY'', ''LA'', ''ME'', ''MD'',
     ''MA'', ''MI'', ''MN'', ''MS'', ''MO'', ''MT'', ''NE'', ''NV'', ''NH'', ''NJ'',
     ''NM'', ''NY'', ''NC'', ''ND'', ''OH'', ''OK'', ''OR'', ''PA'', ''RI'', ''SC'',
     ''SD'', ''TN'', ''TX'', ''UT'', ''VT'', ''VA'', ''WA'', ''WV'', ''WI'', ''WY'', ''DC'']"

section \<open>02_data_cleaning.py: DataCleaner\<close>

subsection \<open>pandas column operations\<close>

text \<open>Comparisons of a cell with a number: a missing cell compares false.\<close>

definition cell_ge :: "real option \<Rightarrow> real \<Rightarrow> bool" where
  "cell_ge c b = (case c of None \<Rightarrow> False | Some x \<Rightarrow> b \<le> x)"

definition cell_le :: "real option \<Rightarrow> real \<Rightarrow> bool" where
  "cell_le c b = (case c of None \<Rightarrow> False | Some x \<Rightarrow> x \<le> b)"

text \<open>\<open>pd.notna\<close>, and \<open>dropna\<close> through it.\<close>

definition notna :: "'a option \<Rightarrow> bool" where
  "notna c = (case c of None \<Rightarrow> False | Some x \<Rightarrow> True)"

text \<open>\<open>Series.clip(lower, upper)\<close>: a missing cell stays missing.\<close>

definition clip :: "real \<Rightarrow> real \<Rightarrow> real option \<Rightarrow> real option" where
  "clip lower upper c = map_option (\<lambda>x. if x < lower then lower else if upper < x then upper else x) c"

text \<open>\<open>Series.isin(values)\<close>: a missing cell is in no list of strings.\<close>

definition isin :: "string option \<Rightarrow> string list \<Rightarrow> bool" where
  "isin c values = (case c of None \<Rightarrow> False | Some s \<Rightarrow> s \<in> set values)"

text \<open>\<open>str.upper\<close> and \<open>str.strip\<close> on ASCII text.\<close>

definition upper_char :: "char \<Rightarrow> char" where
  "upper_char c = (let n = (of_char c :: nat) in if 97 \<le> n \<and> n \<le> 122 then char_of (n - 32) else c)"

definition is_space :: "char \<Rightarrow> bool" where
  "is_space c = (let n = (of_char c :: nat) in (9 \<le> n \<and> n \<le> 13) \<or> (28 \<le> n \<and> n \<le> 32))"

definition str_upper :: "string \<Rightarrow> string" where
  "str_upper s = map upper_char s"

definition str_strip :: "string \<Rightarrow> string" where
  "str_strip s = rev (dropWhile is_space (rev (dropWhile is_space s)))"

text \<open>\<open>pd.to_datetime(df['date'], format='%Y-%m')\<close>: the first day of the month.\<close>

definition to_datetime_ym :: "nat \<times> nat \<Rightarrow> date" where
  "to_datetime_ym p = (fst p, snd p, 1)"

subsection \<open>get_latest_file\<close>

text \<open>\<open>max(files, key=os.path.getctime)\<close> returns the first file of greatest creation
  time; no matching file raises FileNotFoundError.\<close>

fun max_by_ctime :: "'a snapshot \<Rightarrow> 'a snapshot list \<Rightarrow> 'a snapshot" where
  "max_by_ctime best [] = best"
| "max_by_ctime best (f # fs) = max_by_ctime (if ctime best < ctime f then f else best) fs"

definition get_latest_file :: "'a snapshot list \<Rightarrow> error + 'a snapshot" where
  "get_latest_file files = (case files of [] \<Rightarrow> Inl FileNotFoundError | f # fs \<Rightarrow> Inr (max_by_ctime f fs))"

subsection \<open>clean_eia_prices\<close>

definition rename_price :: "raw_price_row \<Rightarrow> price_row" where
  "rename_price r =
     \<lparr> date = to_datetime_ym (period r), state = stateid r, sector_name = sectorName r,
       price_cents_per_kwh = price r, sales_mwh = sales r, price_per_kwh = None \<rparr>"

definition notna_price_sales :: "price_row \<Rightarrow> bool" where
  "notna_price_sales r = (notna (price_cents_per_kwh r) \<and> notna (sales_mwh r))"

definition price_in_bounds :: "price_row \<Rightarrow> bool" where
  "price_in_bounds r = (cell_ge (price_cents_per_kwh r) 1 \<and> cell_le (price_cents_per_kwh r) 100)"

definition add_price_per_kwh :: "price_row \<Rightarrow> price_row" where
  "add_price_per_kwh r = r\<lparr> price_per_kwh := map_option (\<lambda>c. c / 100) (price_cents_per_kwh r) \<rparr>"

text \<open>The table transformation of \<open>clean_eia_prices\<close>, statement by statement.\<close>

definition clean_eia_prices_table :: "raw_price_row list \<Rightarrow> price_row list" where
  "clean_eia_prices_table df0 =
     (let df1 = map rename_price df0;
          df2 = filter notna_price_sales df1;
          df3 = filter price_in_bounds df2;
          df4 = filter (\<lambda>r. isin (state r) US_STATES) df3
      in map add_price_per_kwh df4)"

definition clean_eia_prices :: "filesystem \<Rightarrow> (error + price_row list) \<times> filesystem" where
  "clean_eia_prices fs =
     (case get_latest_file (raw_eia_prices fs) of
        Inl e \<Rightarrow> (Inl e, fs)
      | Inr f \<Rightarrow>
          (let df = clean_eia_prices_table (content f)
           in (Inr df, fs\<lparr> eia_prices_clean := Some df \<rparr>)))"

subsection \<open>clean_datacenter_data\<close>

definition in_bounding_box :: "facility_row \<Rightarrow> bool" where
  "in_bounding_box r =
     (cell_ge (latitude r) 24.0 \<and> cell_le (latitude r) 71.0 \<and>
      cell_ge (longitude r) (-180.0) \<and> cell_le (longitude r) (-66.0))"

definition normalise_state :: "facility_row \<Rightarrow> facility_row" where
  "normalise_state r = r\<lparr> fac_state := map_option (\<lambda>s. str_strip (str_upper s)) (fac_state r) \<rparr>"

definition clip_renewable :: "facility_row \<Rightarrow> facility_row" where
  "clip_renewable r = r\<lparr> renewable_pct := clip 0 100 (renewable_pct r) \<rparr>"

definition clean_datacenter_table :: "facility_row list \<Rightarrow> facility_row list" where
  "clean_datacenter_table df0 =
     (let df1 = map normalise_state df0;
          df2 = filter in_bounding_box df1
      in map clip_renewable df2)"

text \<open>\<open>df['state'].str\<close>: the accessor exists on a column of strings only.
  \<open>read_csv\<close> reads a column with rows and no text cell as float64 (every cell NaN),
  and the accessor raises AttributeError on it; the column of a file without rows is a
  column of strings.\<close>

definition has_str_accessor :: "string option list \<Rightarrow> bool" where
  "has_str_accessor col = (col = [] \<or> list_ex notna col)"

definition clean_datacenter_data :: "filesystem \<Rightarrow> (error + facility_row list) \<times> filesystem" where
  "clean_datacenter_data fs =
     (case get_latest_file (raw_datacenters fs) of
        Inl e \<Rightarrow> (Inl e, fs)
      | Inr f \<Rightarrow>
          if \<not> has_str_accessor (map fac_state (content f)) then (Inl AttributeError, fs)
          else (let df = clean_datacenter_table (content f)
                in (Inr df, fs\<lparr> datacenters_clean := Some df \<rparr>)))"

subsection \<open>run_all_cleaning\<close>

text \<open>The two cleaning steps in sequence; an exception of either ends the run, and what
  was written before it stays written. The progress lines the cleaner prints and the
  quality report it writes for the operator afterwards (counts over the two cleaned
  files, read by no later stage) are left out.\<close>

definition run_all_cleaning ::
  "filesystem \<Rightarrow> (error + price_row list \<times> facility_row list) \<times> filesystem" where
  "run_all_cleaning fs =
     (case clean_eia_prices fs of
        (Inl e, fs1) \<Rightarrow> (Inl e, fs1)
      | (Inr eia_clean, fs1) \<Rightarrow>
          (case clean_datacenter_data fs1 of
             (Inl e, fs2) \<Rightarrow> (Inl e, fs2)
           | (Inr dc_clean, fs2) \<Rightarrow> (Inr (eia_clean, dc_clean), fs2)))"

section \<open>The warehouse\<close>

text \<open>The four tables, each the list of its rows in insertion order.\<close>

record datacenter_cols =
  dc_name :: "string option"
  dc_company :: "string option"
  location_city :: "string option"
  location_state :: "string option"
  dc_latitude :: "real option"
  dc_longitude :: "real option"
  dc_capacity_mw :: "real option"
  dc_is_ai_focused :: bool
  dc_opening_date :: "date option"
  renewable_energy_pct :: "real option"

record dim_datacenter =
  datacenter_id :: int
  cols :: datacenter_cols

record dim_date_row =
  date_id :: int
  full_date :: date

record price_fact =
  region :: "string option"
  pf_date_id :: int
  pf_price_per_kwh :: "real option"
  pf_price_cents_per_kwh :: "real option"
  pf_sales_mwh :: "real option"
  price_type :: string
  sector :: "string option"

record consumption_fact =
  cf_datacenter_id :: int
  cf_date_id :: int
  energy_consumed_mwh :: "real option"
  renewable_energy_mwh :: "real option"
  pue_ratio :: real
  source :: string

record database =
  dim_datacenters :: "dim_datacenter list"
  dim_date :: "dim_date_row list"
  fact_electricity_prices :: "price_fact list"
  fact_energy_consumption :: "consumption_fact list"
  datacenter_id_seq :: int

text \<open>A bulk append to one table, as \<open>DataFrame.to_sql(table, ..., if_exists='append')\<close>
  issues it.\<close>

datatype table_write =
    Append_dim_datacenters "datacenter_cols list"
  | Append_fact_electricity_prices "price_fact list"
  | Append_fact_energy_consumption "consumption_fact list"

text \<open>Modelled from the spec: the warehouse schema script is not among the sources. The
  Datacenter table has an identity key that the loaded columns do not include, so the
  store assigns it on insert: each appended row takes the next value of a counter.\<close>

fun assign_ids :: "int \<Rightarrow> datacenter_cols list \<Rightarrow> dim_datacenter list" where
  "assign_ids n [] = []"
| "assign_ids n (c # cs) = \<lparr> datacenter_id = n, cols = c \<rparr> # assign_ids (n + 1) cs"

fun apply_write :: "table_write \<Rightarrow> database \<Rightarrow> database" where
  "apply_write (Append_dim_datacenters rows) d =
     d\<lparr> dim_datacenters := dim_datacenters d @ assign_ids (datacenter_id_seq d) rows,
        datacenter_id_seq := datacenter_id_seq d + int (length rows) \<rparr>"
| "apply_write (Append_fact_electricity_prices rows) d =
     d\<lparr> fact_electricity_prices := fact_electricity_prices d @ rows \<rparr>"
| "apply_write (Append_fact_energy_consumption rows) d =
     d\<lparr> fact_energy_consumption := fact_energy_consumption d @ rows \<rparr>"

text \<open>What the scripts print, line by line. \<open>Warning\<close> and \<open>WarningCount\<close> are the
  lines printed with the warning sign.\<close>

datatype log_line =
    Info string
  | Count string nat
  | Progress nat nat
  | Generating nat nat
  | TableCount string nat
  | Warning string
  | WarningCount string nat
  | DateRange date date
  | ErrorDuringLoading error
  | Traceback

fun is_warning :: "log_line \<Rightarrow> bool" where
  "is_warning (Warning _) = True"
| "is_warning (WarningCount _ _) = True"
| "is_warning _ = False"

section \<open>03_data_transformation.py: DatabaseLoader\<close>

text \<open>
  The loader object holds two ways to the warehouse. \<open>self.engine\<close> is the SQLAlchemy
  engine every \<open>to_sql\<close> and \<open>read_sql\<close> goes through: pandas takes a connection of
  the engine's own, runs the statement in a transaction of its own and commits it, so an
  append is in the warehouse when \<open>to_sql\<close> returns. \<open>self.conn\<close> is a separate
  psycopg2 connection, used through \<open>self.cursor\<close>; \<open>conn_writes\<close> holds the writes
  made inside its open transaction, which \<open>commit\<close> applies and \<open>rollback\<close> drops.
\<close>

record loader =
  db :: database
  conn_writes :: "table_write list"

definition to_sql :: "table_write \<Rightarrow> loader \<Rightarrow> loader" where
  "to_sql w l = l\<lparr> db := apply_write w (db l) \<rparr>"

definition conn_commit :: "loader \<Rightarrow> loader" where
  "conn_commit l = l\<lparr> db := fold apply_write (conn_writes l) (db l), conn_writes := [] \<rparr>"

definition conn_rollback :: "loader \<Rightarrow> loader" where
  "conn_rollback l = l\<lparr> conn_writes := [] \<rparr>"

definition conn_close :: "loader \<Rightarrow> loader" where
  "conn_close l = l\<lparr> conn_writes := [] \<rparr>"

definition connect :: "database \<Rightarrow> loader" where
  "connect d = \<lparr> db = d, conn_writes = [] \<rparr>"

subsection \<open>load_datacenters\<close>

text \<open>\<open>astype(bool)\<close>: a missing cell (NaN) is truthy.\<close>

definition astype_bool :: "bool option \<Rightarrow> bool" where
  "astype_bool c = (case c of None \<Rightarrow> True | Some b \<Rightarrow> b)"

definition to_datacenter_cols :: "facility_row \<Rightarrow> datacenter_cols" where
  "to_datacenter_cols r =
     \<lparr> dc_name = name r, dc_company = company r, location_city = city r,
       location_state = fac_state r, dc_latitude = latitude r, dc_longitude = longitude r,
       dc_capacity_mw = capacity_mw r, dc_is_ai_focused = astype_bool (is_ai_focused r),
       dc_opening_date = opening_date r, renewable_energy_pct = renewable_pct r \<rparr>"

definition load_datacenters :: "filesystem \<Rightarrow> loader \<Rightarrow> (error + nat) \<times> loader \<times> log_line list" where
  "load_datacenters fs l =
     (case datacenters_clean fs of
        None \<Rightarrow> (Inl FileNotFoundError, l, [Info ''Loading datacenters...''])
      | Some df \<Rightarrow>
          (let df_to_load = map to_datacenter_cols df;
               l' = to_sql (Append_dim_datacenters df_to_load) l
           in (Inr (length df), l',
               [Info ''Loading datacenters...'', Count ''Loaded datacenter records'' (length df)])))"

subsection \<open>load_electricity_prices\<close>

text \<open>\<open>SELECT date_id FROM dim_date WHERE full_date = %s\<close> followed by \<open>fetchone()\<close>:
  the first matching row, or nothing.\<close>

definition fetch_date_id :: "dim_date_row list \<Rightarrow> date \<Rightarrow> int option" where
  "fetch_date_id date_df d =
     (case filter (\<lambda>r. full_date r = d) date_df of [] \<Rightarrow> None | r # _ \<Rightarrow> Some (date_id r))"

definition retail_fact :: "price_row \<Rightarrow> int \<Rightarrow> price_fact" where
  "retail_fact row i =
     \<lparr> region = state row, pf_date_id = i, pf_price_per_kwh = price_per_kwh row,
       pf_price_cents_per_kwh = price_cents_per_kwh row, pf_sales_mwh = sales_mwh row,
       price_type = ''retail'', sector = Some ''all'' \<rparr>"

text \<open>The \<open>for idx, row in df.iterrows()\<close> loop: the records collected and the progress
  lines printed.\<close>

fun price_loop ::
  "dim_date_row list \<Rightarrow> nat \<Rightarrow> (nat \<times> price_row) list \<Rightarrow> price_fact list \<times> log_line list" where
  "price_loop date_df n [] = ([], [])"
| "price_loop date_df n ((idx, row) # rest) =
     (let progress = (if idx mod 500 = 0 then [Progress idx n] else []);
          found = (case fetch_date_id date_df (date row) of
                     Some i \<Rightarrow> [retail_fact row i]
                   | None \<Rightarrow> []);
          (recs, lines) = price_loop date_df n rest
      in (found @ recs, progress @ lines))"

definition iterrows :: "'a list \<Rightarrow> (nat \<times> 'a) list" where
  "iterrows df = zip [0 ..< length df] df"

definition load_electricity_prices ::
  "filesystem \<Rightarrow> loader \<Rightarrow> (error + nat) \<times> loader \<times> log_line list" where
  "load_electricity_prices fs l =
     (case eia_prices_clean fs of
        None \<Rightarrow> (Inl FileNotFoundError, l, [Info ''Loading electricity prices...''])
      | Some df \<Rightarrow>
          (let (prices_with_ids, progress) = price_loop (dim_date (db l)) (length df) (iterrows df);
               start = [Info ''Loading electricity prices...'',
                        Count ''Processing price records'' (length df)]
           in if length prices_with_ids > 0
              then (Inr (length prices_with_ids),
                    to_sql (Append_fact_electricity_prices prices_with_ids) l,
                    start @ progress @ [Count ''Loaded price records'' (length prices_with_ids)])
              else (Inr (length prices_with_ids), l,
                    start @ progress @ [Warning ''No price records to load''])))"

subsection \<open>generate_sample_energy_consumption\<close>

text \<open>\<open>np.random.random()\<close> is a stream \<open>rnd\<close> of numbers, read at a position that
  advances with every draw.\<close>

definition monthly_dates :: "dim_date_row list \<Rightarrow> dim_date_row list" where
  "monthly_dates date_df =
     filter (\<lambda>r. snd (snd (full_date r)) = 1 \<and> (2020, 1, 1) \<le> full_date r \<and>
                 full_date r \<le> (2024, 12, 1)) date_df"

definition utilization :: "bool \<Rightarrow> real \<Rightarrow> real" where
  "utilization ai r = (if ai then 0.85 + 0.10 * r else 0.70 + 0.20 * r)"

definition pue :: "bool \<Rightarrow> real \<Rightarrow> real" where
  "pue ai r = (if ai then 1.15 + 0.15 * r else 1.35 + 0.25 * r)"

definition hours_in_month :: real where
  "hours_in_month = 730"

definition monthly_consumption :: "dim_datacenter \<Rightarrow> real \<Rightarrow> real option" where
  "monthly_consumption dc u = map_option (\<lambda>c. c * hours_in_month * u) (dc_capacity_mw (cols dc))"

definition renewable_mwh :: "dim_datacenter \<Rightarrow> real option \<Rightarrow> real option" where
  "renewable_mwh dc monthly =
     (let renewable_pct = (case renewable_energy_pct (cols dc) of Some p \<Rightarrow> p | None \<Rightarrow> 0)
      in map_option (\<lambda>m. m * (renewable_pct / 100)) monthly)"

text \<open>\<open>round(x, 2)\<close>: to the nearest hundredth, a tie to the even one.\<close>

definition round_half_even :: "real \<Rightarrow> int" where
  "round_half_even x =
     (let f = \<lfloor>x\<rfloor>; d = x - of_int f
      in if d < 1 / 2 then f else if 1 / 2 < d then f + 1 else if even f then f else f + 1)"

definition round2 :: "real \<Rightarrow> real" where
  "round2 x = of_int (round_half_even (x * 100)) / 100"

definition consumption_record :: "dim_datacenter \<Rightarrow> dim_date_row \<Rightarrow> real \<Rightarrow> real \<Rightarrow> consumption_fact" where
  "consumption_record dc dt r1 r2 =
     (let u = utilization (dc_is_ai_focused (cols dc)) r1;
          p = pue (dc_is_ai_focused (cols dc)) r2;
          monthly = monthly_consumption dc u;
          renewable = renewable_mwh dc monthly
      in \<lparr> cf_datacenter_id = datacenter_id dc, cf_date_id = date_id dt,
           energy_consumed_mwh = map_option round2 monthly,
           renewable_energy_mwh = map_option round2 renewable,
           pue_ratio = round2 p, source = ''estimated'' \<rparr>)"

fun dates_loop ::
  "(nat \<Rightarrow> real) \<Rightarrow> dim_datacenter \<Rightarrow> dim_date_row list \<Rightarrow> nat \<Rightarrow> consumption_fact list \<times> nat" where
  "dates_loop rnd dc [] k = ([], k)"
| "dates_loop rnd dc (dt # dts) k =
     (let (recs, k') = dates_loop rnd dc dts (k + 2)
      in (consumption_record dc dt (rnd k) (rnd (k + 1)) # recs, k'))"

fun datacenters_loop ::
  "(nat \<Rightarrow> real) \<Rightarrow> dim_datacenter list \<Rightarrow> dim_date_row list \<Rightarrow> nat \<Rightarrow> consumption_fact list \<times> nat" where
  "datacenters_loop rnd [] dates k = ([], k)"
| "datacenters_loop rnd (dc # dcs) dates k =
     (let (recs, k') = dates_loop rnd dc dates k;
          (recs', k'') = datacenters_loop rnd dcs dates k'
      in (recs @ recs', k''))"

text \<open>\<open>read_sql\<close> gives a column in which every value is NULL as a column of
  \<open>None\<close> objects, and any other numeric column as floats with NaN for NULL. On a
  \<open>capacity_mw\<close> column of \<open>None\<close> objects the product
  \<open>dc['capacity_mw'] * hours_in_month\<close> raises TypeError in the first pass of the loop
  body, before any record is collected and before \<open>to_sql\<close>.\<close>

definition none_objects :: "real option list \<Rightarrow> bool" where
  "none_objects col = list_all (\<lambda>c. \<not> notna c) col"

definition generate_sample_energy_consumption ::
  "(nat \<Rightarrow> real) \<Rightarrow> loader \<Rightarrow> (error + nat) \<times> loader \<times> log_line list" where
  "generate_sample_energy_consumption rnd l =
     (let dc_df = dim_datacenters (db l);
          dates_df = monthly_dates (dim_date (db l));
          start = [Info ''Generating sample energy consumption data...'',
                   Generating (length dc_df) (length dates_df)]
      in if dc_df \<noteq> [] \<and> dates_df \<noteq> [] \<and> none_objects (map (\<lambda>dc. dc_capacity_mw (cols dc)) dc_df)
         then (Inl TypeError, l, start)
         else (let consumption_records = fst (datacenters_loop rnd dc_df dates_df 0);
                   l' = to_sql (Append_fact_energy_consumption consumption_records) l
               in (Inr (length consumption_records), l',
                   start @ [Count ''Generated consumption records'' (length consumption_records)])))"

subsection \<open>verify_data_integrity\<close>

text \<open>\<open>fact_energy_consumption ec LEFT JOIN dim_datacenters dc ON ec.datacenter_id =
  dc.datacenter_id\<close>: every fact row with each matching dimension row, or once with none.\<close>

definition left_join_datacenters ::
  "consumption_fact list \<Rightarrow> dim_datacenter list \<Rightarrow> (consumption_fact \<times> dim_datacenter option) list" where
  "left_join_datacenters ecs dcs =
     concat (map (\<lambda>ec. case filter (\<lambda>dc. cf_datacenter_id ec = datacenter_id dc) dcs of
                          [] \<Rightarrow> [(ec, None)]
                        | ms \<Rightarrow> map (\<lambda>dc. (ec, Some dc)) ms) ecs)"

definition count_orphans :: "database \<Rightarrow> nat" where
  "count_orphans d =
     length (filter (\<lambda>(ec, dc). dc = None)
               (left_join_datacenters (fact_energy_consumption d) (dim_datacenters d)))"

definition verify_data_integrity :: "loader \<Rightarrow> bool \<times> loader \<times> log_line list" where
  "verify_data_integrity l =
     (let d = db l;
          orphans = count_orphans d
      in (True, l,
          [Info ''Verifying data integrity...'',
           TableCount ''dim_datacenters'' (length (dim_datacenters d)),
           TableCount ''dim_date'' (length (dim_date d)),
           TableCount ''fact_electricity_prices'' (length (fact_electricity_prices d)),
           TableCount ''fact_energy_consumption'' (length (fact_energy_consumption d)),
           Info ''Checking referential integrity...'',
           (if orphans = 0 then Info ''No orphaned energy consumption records''
            else WarningCount ''Found orphaned energy consumption records'' orphans)]))"

subsection \<open>run_full_load\<close>

text \<open>The \<open>except\<close> branch: report, roll \<open>self.conn\<close> back, return False; the
  \<open>finally\<close> branch closes the connection on both paths.\<close>

definition on_exception :: "error \<Rightarrow> loader \<Rightarrow> log_line list \<Rightarrow> bool \<times> loader \<times> log_line list" where
  "on_exception e l lines =
     (False, conn_close (conn_rollback l), lines @ [ErrorDuringLoading e, Traceback])"

definition run_full_load ::
  "filesystem \<Rightarrow> (nat \<Rightarrow> real) \<Rightarrow> loader \<Rightarrow> bool \<times> loader \<times> log_line list" where
  "run_full_load fs rnd l0 =
     (let banner = [Info ''Starting Database Loading Process'']
      in case load_datacenters fs l0 of
           (Inl e, l1, g1) \<Rightarrow> on_exception e l1 (banner @ g1)
         | (Inr dc_count, l1, g1) \<Rightarrow>
             (case load_electricity_prices fs l1 of
                (Inl e, l2, g2) \<Rightarrow> on_exception e l2 (banner @ g1 @ g2)
              | (Inr price_count, l2, g2) \<Rightarrow>
                  (case generate_sample_energy_consumption rnd l2 of
                     (Inl e, l3, g3) \<Rightarrow> on_exception e l3 (banner @ g1 @ g2 @ g3)
                   | (Inr consumption_count, l3, g3) \<Rightarrow>
                       (case verify_data_integrity l3 of
                          (ok, l4, g4) \<Rightarrow>
                            (True, conn_close (conn_commit l4),
                             banner @ g1 @ g2 @ g3 @ g4 @
                             [Info ''Database Loading Complete!'',
                              Count ''Datacenters'' dc_count,
                              Count ''Electricity prices'' price_count,
                              Count ''Energy consumption'' consumption_count])))))"

text \<open>The script: build the loader, run the load, print the outcome. The script ends
  after the last print on both paths, so the interpreter exits with status 0.\<close>

definition main :: "filesystem \<Rightarrow> (nat \<Rightarrow> real) \<Rightarrow> database \<Rightarrow> int \<times> database \<times> log_line list" where
  "main fs rnd d =
     (case run_full_load fs rnd (connect d) of
        (success, l, lines) \<Rightarrow>
          (0, db l,
           lines @ [if success then Info ''Ready for Power BI connection!''
                    else Info ''Loading failed. Check errors above.'']))"

section \<open>load_data.py\<close>

subsection \<open>load_eia_prices\<close>

text \<open>\<open>df.merge(date_df, left_on='date', right_on='full_date', how='left')\<close>: every
  price row, in order, with the key of each matching date row, or once with a missing
  key.\<close>

definition merge_left :: "price_row list \<Rightarrow> dim_date_row list \<Rightarrow> (price_row \<times> int option) list" where
  "merge_left df date_df =
     concat (map (\<lambda>row. case filter (\<lambda>r. date row = full_date r) date_df of
                           [] \<Rightarrow> [(row, None)]
                         | ms \<Rightarrow> map (\<lambda>r. (row, Some (date_id r))) ms) df)"

definition average_fact :: "price_row \<Rightarrow> int \<Rightarrow> price_fact" where
  "average_fact row i =
     \<lparr> region = state row, pf_date_id = i, pf_price_per_kwh = price_per_kwh row,
       pf_price_cents_per_kwh = price_cents_per_kwh row, pf_sales_mwh = sales_mwh row,
       price_type = ''average'', sector = sector_name row \<rparr>"

fun min_date :: "date \<Rightarrow> date list \<Rightarrow> date" where
  "min_date m [] = m"
| "min_date m (d # ds) = min_date (if d < m then d else m) ds"

fun max_date :: "date \<Rightarrow> date list \<Rightarrow> date" where
  "max_date m [] = m"
| "max_date m (d # ds) = max_date (if m < d then d else m) ds"

definition date_range :: "(price_row \<times> int option) list \<Rightarrow> log_line list" where
  "date_range df =
     (case map (\<lambda>(row, i). date row) df of
        [] \<Rightarrow> []
      | d # ds \<Rightarrow> [DateRange (min_date d ds) (max_date d ds)])"

definition load_eia_prices ::
  "filesystem \<Rightarrow> database \<Rightarrow> (error + nat) \<times> database \<times> log_line list" where
  "load_eia_prices fs d =
     (case eia_prices_clean fs of
        None \<Rightarrow> (Inl FileNotFoundError, d, [Info ''Loading electricity prices...''])
      | Some df0 \<Rightarrow>
          (let df = merge_left df0 (dim_date d);
               missing = filter (\<lambda>(row, i). \<not> notna i) df;
               warn = (if length missing > 0
                       then WarningCount ''Warning: records have dates not in dim_date'' (length missing)
                            # date_range df
                       else []);
               df' = (if length missing > 0 then filter (\<lambda>(row, i). notna i) df else df);
               price_df = concat (map (\<lambda>(row, i). case i of Some k \<Rightarrow> [average_fact row k] | None \<Rightarrow> []) df')
           in (Inr (length price_df),
               apply_write (Append_fact_electricity_prices price_df) d,
               [Info ''Loading electricity prices...''] @ warn @
               [Count ''Loaded price records'' (length price_df)])))"

section \<open>Example inputs\<close>

definition fs_prices_example :: filesystem where
  "fs_prices_example =
     \<lparr> raw_eia_prices =
         [\<lparr> ctime = 1, content =
            [\<lparr> period = (2023, 5), stateid = Some ''VA'', sectorName = Some ''all sectors'',
               price = Some 12.5, sales = Some 9000 \<rparr>,
             \<lparr> period = (2023, 6), stateid = Some ''VA'', sectorName = Some ''all sectors'',
               price = Some 0.5, sales = Some 9000 \<rparr>,
             \<lparr> period = (2023, 7), stateid = Some ''VA'', sectorName = Some ''all sectors'',
               price = None, sales = Some 9000 \<rparr>,
             \<lparr> period = (2023, 8), stateid = Some ''VA'', sectorName = Some ''all sectors'',
               price = Some 250, sales = Some 9000 \<rparr>,
             \<lparr> period = (2023, 9), stateid = Some ''VA'', sectorName = Some ''all sectors'',
               price = Some 11, sales = None \<rparr>] \<rparr>],
       raw_datacenters = [], eia_prices_clean = None, datacenters_clean = None \<rparr>"

definition price_example_row :: price_row where
  "price_example_row =
     \<lparr> date = (2023, 5, 1), state = Some ''VA'', sector_name = Some ''all sectors'',
       price_cents_per_kwh = Some 12.5, sales_mwh = Some 9000, price_per_kwh = Some 0.125 \<rparr>"

definition facility_150 :: facility_row where
  "facility_150 =
     \<lparr> name = Some ''Virginia Data Center 1'', company = Some ''AWS'', city = Some ''Ashburn'',
       fac_state = Some '' va '', latitude = Some 39.0438, longitude = Some (- 77.4874),
       capacity_mw = Some 100, is_ai_focused = Some True, opening_date = Some (2020, 6, 15),
       renewable_pct = Some 150 \<rparr>"

definition facility_south :: facility_row where
  "facility_south = facility_150\<lparr> latitude := Some 10.0, renewable_pct := Some 65 \<rparr>"

definition facility_no_pct :: facility_row where
  "facility_no_pct = facility_150\<lparr> renewable_pct := None \<rparr>"

definition snapshot_dc_example :: "facility_row snapshot" where
  "snapshot_dc_example = \<lparr> ctime = 2, content = [facility_150, facility_south, facility_no_pct] \<rparr>"

definition fs_dc_example :: filesystem where
  "fs_dc_example =
     \<lparr> raw_eia_prices = [], raw_datacenters = [\<lparr> ctime = 1, content = [] \<rparr>, snapshot_dc_example],
       eia_prices_clean = None, datacenters_clean = None \<rparr>"

definition db_example :: database where
  "db_example =
     \<lparr> dim_datacenters = [],
       dim_date = [\<lparr> date_id = 20230501, full_date = (2023, 5, 1) \<rparr>,
                   \<lparr> date_id = 20230502, full_date = (2023, 5, 2) \<rparr>,
                   \<lparr> date_id = 20230601, full_date = (2023, 6, 1) \<rparr>],
       fact_electricity_prices = [], fact_energy_consumption = [], datacenter_id_seq = 1 \<rparr>"

definition price_row_unmatched :: price_row where
  "price_row_unmatched = price_example_row\<lparr> date := (2019, 1, 1) \<rparr>"

definition fs_matched :: filesystem where
  "fs_matched =
     \<lparr> raw_eia_prices = [], raw_datacenters = [],
       eia_prices_clean = Some [price_example_row], datacenters_clean = None \<rparr>"

definition fs_unmatched :: filesystem where
  "fs_unmatched =
     \<lparr> raw_eia_prices = [], raw_datacenters = [],
       eia_prices_clean = Some [price_row_unmatched], datacenters_clean = None \<rparr>"

definition rnd_half :: "nat \<Rightarrow> real" where
  "rnd_half i = 1 / 2"

definition dc_example :: dim_datacenter where
  "dc_example =
     \<lparr> datacenter_id = 1, cols = to_datacenter_cols (clip_renewable (normalise_state facility_150)) \<rparr>"

definition dc_no_pct :: dim_datacenter where
  "dc_no_pct =
     \<lparr> datacenter_id = 2, cols = to_datacenter_cols (clip_renewable (normalise_state facility_no_pct)) \<rparr>"

definition db_loaded_example :: database where
  "db_loaded_example = db_example\<lparr> dim_datacenters := [dc_example, dc_no_pct], datacenter_id_seq := 3 \<rparr>"

definition fs_cleaned_example :: filesystem where
  "fs_cleaned_example =
     \<lparr> raw_eia_prices = [], raw_datacenters = [],
       eia_prices_clean = Some [price_example_row],
       datacenters_clean = Some [clip_renewable (normalise_state facility_150)] \<rparr>"

definition fs_no_prices :: filesystem where
  "fs_no_prices =
     \<lparr> raw_eia_prices = [], raw_datacenters = [],
       eia_prices_clean = None,
       datacenters_clean = Some [clip_renewable (normalise_state facility_150)] \<rparr>"

definition facility_no_cap :: facility_row where
  "facility_no_cap = facility_150\<lparr> capacity_mw := None, renewable_pct := None \<rparr>"

definition snapshot_no_cap :: "facility_row snapshot" where
  "snapshot_no_cap = \<lparr> ctime = 3, content = [facility_150, facility_no_cap] \<rparr>"

definition fs_no_cap :: filesystem where
  "fs_no_cap =
     \<lparr> raw_eia_prices = [], raw_datacenters = [snapshot_no_cap],
       eia_prices_clean = None, datacenters_clean = None \<rparr>"

definition dc_no_cap :: dim_datacenter where
  "dc_no_cap =
     \<lparr> datacenter_id = 2, cols = to_datacenter_cols (clip_renewable (normalise_state facility_no_cap)) \<rparr>"

definition db_no_cap :: database where
  "db_no_cap = db_example\<lparr> dim_datacenters := [dc_example, dc_no_cap], datacenter_id_seq := 3 \<rparr>"

section \<open>Properties of the cleaner\<close>

subsection \<open>Price rows\<close>

lemma clean_eia_prices_table_row:
  assumes "r \<in> set (clean_eia_prices_table raw)"
  shows "\<exists>q \<in> set raw. \<exists>c s. price q = Some c \<and> sales q = Some s \<and> 1 \<le> c \<and> c \<le> 100 \<and>
           isin (stateid q) US_STATES \<and>
           r = (rename_price q)\<lparr> price_per_kwh := Some (c / 100) \<rparr>"
proof -
  from assms obtain q where q: "q \<in> set raw" "notna_price_sales (rename_price q)"
      "price_in_bounds (rename_price q)" "isin (state (rename_price q)) US_STATES"
      "r = add_price_per_kwh (rename_price q)"
    by (auto simp: clean_eia_prices_table_def)
  from q(2) obtain c s where cs: "price q = Some c" "sales q = Some s"
    by (auto simp: notna_price_sales_def rename_price_def notna_def split: option.splits)
  from q(3) cs have "1 \<le> c" "c \<le> 100"
    by (simp_all add: price_in_bounds_def rename_price_def cell_ge_def cell_le_def)
  moreover from q(4) have "isin (stateid q) US_STATES" by (simp add: rename_price_def)
  moreover from q(5) cs have "r = (rename_price q)\<lparr> price_per_kwh := Some (c / 100) \<rparr>"
    by (simp add: add_price_per_kwh_def rename_price_def)
  ultimately show ?thesis using q(1) cs by blast
qed

lemma clean_eia_prices_result:
  assumes "clean_eia_prices fs = (Inr df, fs')"
  obtains f where "get_latest_file (raw_eia_prices fs) = Inr f"
    and "df = clean_eia_prices_table (content f)"
    and "fs' = fs\<lparr> eia_prices_clean := Some df \<rparr>"
  using assms by (auto simp: clean_eia_prices_def Let_def split: sum.splits)

text \<open>
  C4. Every row of the cleaned price table that \<open>clean_eia_prices\<close> returns and writes
  has a price present and within 1 and 100 cents, a sales volume present, and
  \<open>price_per_kwh\<close> equal to the price in cents divided by 100; so no row with a price
  outside the bounds, a missing price or a missing sales volume is in the cleaned output.
\<close>

theorem cleaned_price_rows_valid:
  assumes "clean_eia_prices fs = (Inr df, fs')"
  shows "eia_prices_clean fs' = Some df \<and>
         (\<forall>r \<in> set df. \<exists>c s. price_cents_per_kwh r = Some c \<and> 1 \<le> c \<and> c \<le> 100 \<and>
                         sales_mwh r = Some s \<and> price_per_kwh r = Some (c / 100))"
proof -
  from assms obtain f :: "raw_price_row snapshot" where
    f: "df = clean_eia_prices_table (content f)" "fs' = fs\<lparr> eia_prices_clean := Some df \<rparr>"
    by (rule clean_eia_prices_result)
  have "\<exists>c s. price_cents_per_kwh r = Some c \<and> 1 \<le> c \<and> c \<le> 100 \<and>
               sales_mwh r = Some s \<and> price_per_kwh r = Some (c / 100)"
    if "r \<in> set df" for r
  proof -
    from that f(1) clean_eia_prices_table_row [of r "content f"] obtain q c s where
      "price q = Some c" "sales q = Some s" "1 \<le> c" "c \<le> 100"
      "r = (rename_price q)\<lparr> price_per_kwh := Some (c / 100) \<rparr>"
      by blast
    then show ?thesis by (simp add: rename_price_def)
  qed
  with f(2) show ?thesis by simp
qed

lemma fs_prices_example_clean:
  "clean_eia_prices fs_prices_example =
     (Inr [price_example_row], fs_prices_example\<lparr> eia_prices_clean := Some [price_example_row] \<rparr>)"
  by (simp add: clean_eia_prices_def fs_prices_example_def get_latest_file_def
      clean_eia_prices_table_def rename_price_def notna_price_sales_def price_in_bounds_def
      cell_ge_def cell_le_def isin_def US_STATES_def add_price_per_kwh_def to_datetime_ym_def notna_def Let_def
      price_example_row_def)

theorem cleaned_price_rows_valid_witness:
  "clean_eia_prices fs_prices_example =
     (Inr [price_example_row], fs_prices_example\<lparr> eia_prices_clean := Some [price_example_row] \<rparr>) \<and>
   (\<exists>c s. price_cents_per_kwh price_example_row = Some c \<and> 1 \<le> c \<and> c \<le> 100 \<and>
      sales_mwh price_example_row = Some s \<and> price_per_kwh price_example_row = Some (c / 100))"
proof -
  note h = cleaned_price_rows_valid [OF fs_prices_example_clean]
  have "price_example_row \<in> set [price_example_row]" by simp
  with h have "\<exists>c s. price_cents_per_kwh price_example_row = Some c \<and> 1 \<le> c \<and> c \<le> 100 \<and>
      sales_mwh price_example_row = Some s \<and> price_per_kwh price_example_row = Some (c / 100)"
    by blast
  with fs_prices_example_clean show ?thesis by blast
qed

subsection \<open>Facility rows\<close>

lemma in_bounding_box_iff:
  "in_bounding_box r \<longleftrightarrow>
     (\<exists>la lo. latitude r = Some la \<and> 24 \<le> la \<and> la \<le> 71 \<and>
              longitude r = Some lo \<and> - 180 \<le> lo \<and> lo \<le> - 66)"
  by (auto simp: in_bounding_box_def cell_ge_def cell_le_def split: option.splits)

lemma in_bounding_box_normalise_state [simp]:
  "in_bounding_box (normalise_state r) = in_bounding_box r"
  by (simp add: in_bounding_box_def normalise_state_def)

lemma in_bounding_box_clip_renewable [simp]:
  "in_bounding_box (clip_renewable r) = in_bounding_box r"
  by (simp add: in_bounding_box_def clip_renewable_def)

lemma clean_datacenter_table_eq:
  "clean_datacenter_table df =
     map (\<lambda>q. clip_renewable (normalise_state q)) (filter in_bounding_box df)"
  by (simp add: clean_datacenter_table_def filter_map comp_def)

lemma clean_datacenter_data_result:
  assumes "clean_datacenter_data fs = (Inr df, fs')"
  obtains f where "get_latest_file (raw_datacenters fs) = Inr f"
    and "df = clean_datacenter_table (content f)"
    and "fs' = fs\<lparr> datacenters_clean := Some df \<rparr>"
  using assms by (auto simp: clean_datacenter_data_def Let_def split: sum.splits if_splits)

lemma clean_datacenter_data_latest:
  assumes "get_latest_file (raw_datacenters fs) = Inr f"
    and "has_str_accessor (map fac_state (content f))"
  shows "clean_datacenter_data fs =
           (Inr (clean_datacenter_table (content f)),
            fs\<lparr> datacenters_clean := Some (clean_datacenter_table (content f)) \<rparr>)"
  using assms by (simp add: clean_datacenter_data_def Let_def)

text \<open>
  C5. Every row of the cleaned facility table that \<open>clean_datacenter_data\<close> returns and
  writes has its latitude within 24.0 and 71.0 and its longitude within -180.0 and -66.0;
  in particular no cleaned row has latitude 10.0, so an input row outside the box is not
  in the output.
\<close>

theorem cleaned_facility_rows_in_box:
  assumes "clean_datacenter_data fs = (Inr df, fs')"
  shows "datacenters_clean fs' = Some df \<and>
         (\<forall>r \<in> set df. \<exists>la lo. latitude r = Some la \<and> 24.0 \<le> la \<and> la \<le> 71.0 \<and>
                          longitude r = Some lo \<and> - 180.0 \<le> lo \<and> lo \<le> - 66.0) \<and>
         (\<forall>r \<in> set df. latitude r \<noteq> Some 10.0)"
proof -
  from assms obtain f :: "facility_row snapshot" where
    f: "df = clean_datacenter_table (content f)" "fs' = fs\<lparr> datacenters_clean := Some df \<rparr>"
    by (rule clean_datacenter_data_result)
  have box: "in_bounding_box r" if "r \<in> set df" for r
    using that f(1) by (auto simp: clean_datacenter_table_eq)
  have "\<exists>la lo. latitude r = Some la \<and> 24.0 \<le> la \<and> la \<le> 71.0 \<and>
               longitude r = Some lo \<and> - 180.0 \<le> lo \<and> lo \<le> - 66.0"
    if "r \<in> set df" for r
    using box [OF that] by (simp add: in_bounding_box_iff)
  moreover have "latitude r \<noteq> Some 10.0" if "r \<in> set df" for r
    using box [OF that] by (auto simp: in_bounding_box_iff)
  ultimately show ?thesis using f(2) by simp
qed

lemma clip_range:
  "clip 0 100 (Some p) = Some p' \<Longrightarrow> 0 \<le> p' \<and> p' \<le> 100"
  by (auto simp: clip_def split: if_splits)

lemma clip_cases:
  "clip 0 100 None = None"
  "100 < p \<Longrightarrow> clip 0 100 (Some p) = Some 100"
  "p < 0 \<Longrightarrow> clip 0 100 (Some p) = Some 0"
  "0 \<le> p \<Longrightarrow> p \<le> 100 \<Longrightarrow> clip 0 100 (Some p) = Some p"
  by (auto simp: clip_def)

lemma renewable_pct_cleaned [simp]:
  "renewable_pct (clip_renewable (normalise_state q)) = clip 0 100 (renewable_pct q)"
  by (simp add: clip_renewable_def normalise_state_def)

lemma cols_assign_ids [simp]: "map cols (assign_ids n cs) = cs"
  by (induction n cs rule: assign_ids.induct) simp_all

lemma length_assign_ids [simp]: "length (assign_ids n cs) = length cs"
  by (induction n cs rule: assign_ids.induct) simp_all

lemma renewable_energy_pct_loaded [simp]:
  "renewable_energy_pct (to_datacenter_cols r) = renewable_pct r"
  by (simp add: to_datacenter_cols_def)

lemma load_datacenters_file:
  assumes "datacenters_clean fs = Some df"
  shows "\<exists>l' g. load_datacenters fs l = (Inr (length df), l', g) \<and>
           dim_datacenters (db l') =
             dim_datacenters (db l) @ assign_ids (datacenter_id_seq (db l)) (map to_datacenter_cols df)"
  using assms by (simp add: load_datacenters_def Let_def to_sql_def)

lemma fs_dc_example_latest: "get_latest_file (raw_datacenters fs_dc_example) = Inr snapshot_dc_example"
  by (simp add: get_latest_file_def fs_dc_example_def snapshot_dc_example_def)

lemma snapshot_dc_example_states: "has_str_accessor (map fac_state (content snapshot_dc_example))"
  by (simp add: has_str_accessor_def snapshot_dc_example_def facility_150_def notna_def)

lemma facility_150_box: "in_bounding_box facility_150"
  by (simp add: in_bounding_box_def facility_150_def cell_ge_def cell_le_def)

lemma facility_south_box: "\<not> in_bounding_box facility_south"
  by (simp add: in_bounding_box_def facility_south_def facility_150_def cell_ge_def cell_le_def)

lemma facility_no_pct_box: "in_bounding_box facility_no_pct"
  by (simp add: in_bounding_box_def facility_no_pct_def facility_150_def cell_ge_def cell_le_def)

lemma fs_dc_example_clean:
  "clean_datacenter_data fs_dc_example =
     (Inr [clip_renewable (normalise_state facility_150), clip_renewable (normalise_state facility_no_pct)],
      fs_dc_example\<lparr> datacenters_clean :=
        Some [clip_renewable (normalise_state facility_150), clip_renewable (normalise_state facility_no_pct)] \<rparr>)"
  by (simp add: clean_datacenter_data_latest [OF fs_dc_example_latest snapshot_dc_example_states]
      clean_datacenter_table_eq
      snapshot_dc_example_def facility_150_box facility_south_box facility_no_pct_box)

theorem cleaned_facility_rows_in_box_witness:
  "clean_datacenter_data fs_dc_example =
     (Inr [clip_renewable (normalise_state facility_150), clip_renewable (normalise_state facility_no_pct)],
      fs_dc_example\<lparr> datacenters_clean :=
        Some [clip_renewable (normalise_state facility_150), clip_renewable (normalise_state facility_no_pct)] \<rparr>) \<and>
   latitude facility_south = Some 10.0 \<and>
   (\<exists>la lo. latitude (clip_renewable (normalise_state facility_150)) = Some la \<and> 24.0 \<le> la \<and> la \<le> 71.0 \<and>
      longitude (clip_renewable (normalise_state facility_150)) = Some lo \<and> - 180.0 \<le> lo \<and> lo \<le> - 66.0) \<and>
   latitude (clip_renewable (normalise_state facility_150)) \<noteq> Some 10.0"
proof -
  note h = cleaned_facility_rows_in_box [OF fs_dc_example_clean]
  have "clip_renewable (normalise_state facility_150) \<in>
          set [clip_renewable (normalise_state facility_150), clip_renewable (normalise_state facility_no_pct)]"
    by simp
  with h have
    "(\<exists>la lo. latitude (clip_renewable (normalise_state facility_150)) = Some la \<and> 24.0 \<le> la \<and> la \<le> 71.0 \<and>
      longitude (clip_renewable (normalise_state facility_150)) = Some lo \<and> - 180.0 \<le> lo \<and> lo \<le> - 66.0) \<and>
     latitude (clip_renewable (normalise_state facility_150)) \<noteq> Some 10.0"
    by blast
  moreover have "latitude facility_south = Some 10.0"
    by (simp add: facility_south_def)
  ultimately show ?thesis using fs_dc_example_clean by blast
qed

lemma map_cols_assign_ids: "map (\<lambda>dc. g (cols dc)) (assign_ids n cs) = map g cs"
  by (induction n cs rule: assign_ids.induct) simp_all



section \<open>Properties of the price loaders\<close>

lemma map_snd_iterrows [simp]: "map snd (iterrows df) = df"
  by (simp add: iterrows_def)

lemma price_loop_records:
  "fst (price_loop date_df n irows) =
     concat (map (\<lambda>row. case fetch_date_id date_df (date row) of
                          Some i \<Rightarrow> [retail_fact row i] | None \<Rightarrow> []) (map snd irows))"
proof (induction irows)
  case Nil
  then show ?case by simp
next
  case (Cons a irows)
  obtain idx row where a: "a = (idx, row)" by (cases a)
  with Cons show ?case by (auto simp: Let_def split: prod.splits)
qed

lemma price_loop_no_warning:
  "filter is_warning (snd (price_loop date_df n irows)) = []"
proof (induction irows)
  case Nil
  then show ?case by simp
next
  case (Cons a irows)
  obtain idx row where a: "a = (idx, row)" by (cases a)
  with Cons show ?case by (auto simp: Let_def split: prod.splits)
qed

text \<open>The rows of the date dimension with a given date, and what the point query
  returns, when no date occurs twice.\<close>

lemma filter_distinct_key:
  assumes "distinct (map full_date date_df)"
  shows "length (filter (\<lambda>r. full_date r = d) date_df) \<le> 1"
  using assms
proof (induction date_df)
  case Nil
  then show ?case by simp
next
  case (Cons a rest)
  show ?case
  proof (cases "full_date a = d")
    case True
    with Cons.prems have "d \<notin> full_date ` set rest" by auto
    then have "filter (\<lambda>r. full_date r = d) rest = []"
      by (auto simp: filter_empty_conv)
    with True show ?thesis by simp
  next
    case False
    with Cons show ?thesis by simp
  qed
qed

lemma fetch_date_id_None:
  "fetch_date_id date_df d = None \<longleftrightarrow> d \<notin> full_date ` set date_df"
proof (cases "filter (\<lambda>r. full_date r = d) date_df")
  case Nil
  then have "d \<notin> full_date ` set date_df" by (auto simp: filter_empty_conv)
  with Nil show ?thesis by (simp add: fetch_date_id_def)
next
  case (Cons r rest)
  then have "r \<in> set (filter (\<lambda>r. full_date r = d) date_df)" by simp
  then have "d \<in> full_date ` set date_df" by auto
  with Cons show ?thesis by (simp add: fetch_date_id_def)
qed

lemma fetch_date_id_Some:
  assumes "fetch_date_id date_df d = Some i"
  shows "\<exists>r \<in> set date_df. full_date r = d \<and> date_id r = i"
proof -
  from assms obtain r rest where f: "filter (\<lambda>r. full_date r = d) date_df = r # rest" "date_id r = i"
    by (auto simp: fetch_date_id_def split: list.splits)
  then have "r \<in> set (filter (\<lambda>r. full_date r = d) date_df)" by simp
  with f(2) show ?thesis by auto
qed

lemma fetch_date_id_unique:
  assumes "distinct (map full_date date_df)" "r \<in> set date_df"
  shows "fetch_date_id date_df (full_date r) = Some (date_id r)"
proof -
  let ?ms = "filter (\<lambda>x. full_date x = full_date r) date_df"
  from assms(2) have m: "r \<in> set ?ms" by simp
  from filter_distinct_key [OF assms(1)] have "length ?ms \<le> 1" .
  with m have "?ms = [r]"
    by (cases ?ms) (auto simp del: filter.simps set_filter)
  then show ?thesis by (simp add: fetch_date_id_def)
qed

lemma merge_left_distinct:
  assumes "distinct (map full_date date_df)"
  shows "merge_left df date_df = map (\<lambda>row. (row, fetch_date_id date_df (date row))) df"
proof -
  have "(case filter (\<lambda>r. date row = full_date r) date_df of
            [] \<Rightarrow> [(row, None)]
          | ms \<Rightarrow> map (\<lambda>r. (row, Some (date_id r))) ms) =
        [(row, fetch_date_id date_df (date row))]" for row :: price_row
  proof -
    have eq: "filter (\<lambda>r. date row = full_date r) date_df = filter (\<lambda>r. full_date r = date row) date_df"
      by (rule filter_cong) auto
    from filter_distinct_key [OF assms, of "date row"]
    show ?thesis unfolding eq fetch_date_id_def
      by (cases "filter (\<lambda>r. full_date r = date row) date_df") (auto split: list.splits)
  qed
  then show ?thesis by (simp add: merge_left_def)
qed

text \<open>Both loops collect, for the rows of the table in order, one fact per row whose
  date the point query finds.\<close>

lemma concat_case_filter:
  fixes df :: "price_row list"
  shows "concat (map (\<lambda>row. case fetch_date_id date_df (date row) of Some i \<Rightarrow> [mk row i] | None \<Rightarrow> []) df) =
   map (\<lambda>row. mk row (the (fetch_date_id date_df (date row))))
       (filter (\<lambda>row. date row \<in> full_date ` set date_df) df)"
proof (induction df)
  case Nil
  then show ?case by simp
next
  case (Cons row df)
  show ?case
  proof (cases "fetch_date_id date_df (date row)")
    case None
    then have "date row \<notin> full_date ` set date_df" by (simp add: fetch_date_id_None)
    with None Cons show ?thesis by simp
  next
    case (Some i)
    then have "date row \<in> full_date ` set date_df"
      using fetch_date_id_None [of date_df "date row"] by auto
    with Some Cons show ?thesis by simp
  qed
qed


lemma concat_case_dropna:
  "concat (map (\<lambda>(row, i). case i of Some k \<Rightarrow> [mk row k] | None \<Rightarrow> []) (filter (\<lambda>(row, i). notna i) xs)) =
   concat (map (\<lambda>(row, i). case i of Some k \<Rightarrow> [mk row k] | None \<Rightarrow> []) xs)"
  by (induction xs) (auto simp: notna_def split: option.splits)

lemma load_electricity_prices_file:
  assumes "eia_prices_clean fs = Some df"
  shows "\<exists>g. load_electricity_prices fs l =
           (Inr (length (concat (map (\<lambda>row. case fetch_date_id (dim_date (db l)) (date row) of
                                  Some i \<Rightarrow> [retail_fact row i] | None \<Rightarrow> []) df))),
            l\<lparr> db := (db l)\<lparr> fact_electricity_prices := fact_electricity_prices (db l) @
                 concat (map (\<lambda>row. case fetch_date_id (dim_date (db l)) (date row) of
                                  Some i \<Rightarrow> [retail_fact row i] | None \<Rightarrow> []) df) \<rparr> \<rparr>, g) \<and>
           length (filter is_warning g) =
             (if concat (map (\<lambda>row. case fetch_date_id (dim_date (db l)) (date row) of
                                  Some i \<Rightarrow> [retail_fact row i] | None \<Rightarrow> []) df) = [] then 1 else 0)"
proof -
  obtain recs lines where pl: "price_loop (dim_date (db l)) (length df) (iterrows df) = (recs, lines)"
    by (cases "price_loop (dim_date (db l)) (length df) (iterrows df)")
  from price_loop_records [of "dim_date (db l)" "length df" "iterrows df"] pl
  have recs: "recs = concat (map (\<lambda>row. case fetch_date_id (dim_date (db l)) (date row) of
                                  Some i \<Rightarrow> [retail_fact row i] | None \<Rightarrow> []) df)"
    by simp
  from price_loop_no_warning [of "dim_date (db l)" "length df" "iterrows df"] pl
  have lines: "filter is_warning lines = []" by simp
  show ?thesis
  proof (cases "recs = []")
    case True
    with assms pl lines recs show ?thesis
      by (simp add: load_electricity_prices_def)
  next
    case False
    with assms pl lines recs show ?thesis
      by (simp add: load_electricity_prices_def to_sql_def)
  qed
qed

lemma filter_is_warning_date_range [simp]: "filter is_warning (date_range xs) = []"
  by (simp add: date_range_def split: list.splits)

lemma load_eia_prices_file:
  assumes "eia_prices_clean fs = Some df" and "distinct (map full_date (dim_date d))"
  shows "\<exists>g. load_eia_prices fs d =
           (Inr (length (concat (map (\<lambda>row. case fetch_date_id (dim_date d) (date row) of
                                  Some i \<Rightarrow> [average_fact row i] | None \<Rightarrow> []) df))),
            d\<lparr> fact_electricity_prices := fact_electricity_prices d @
                 concat (map (\<lambda>row. case fetch_date_id (dim_date d) (date row) of
                                  Some i \<Rightarrow> [average_fact row i] | None \<Rightarrow> []) df) \<rparr>, g) \<and>
           length (filter is_warning g) =
             (if \<exists>row \<in> set df. date row \<notin> full_date ` set (dim_date d) then 1 else 0)"
proof -
  let ?df = "map (\<lambda>row. (row, fetch_date_id (dim_date d) (date row))) df"
  let ?h = "\<lambda>(row, i). case i of Some k \<Rightarrow> [average_fact row k] | None \<Rightarrow> []"
  have m: "merge_left df (dim_date d) = ?df"
    by (rule merge_left_distinct [OF assms(2)])
  have c: "concat (map ?h ?df) =
      concat (map (\<lambda>row. case fetch_date_id (dim_date d) (date row) of
                            Some i \<Rightarrow> [average_fact row i] | None \<Rightarrow> []) df)"
    by (simp add: comp_def)
  have miss: "filter (\<lambda>(row, i). \<not> notna i) ?df = [] \<longleftrightarrow>
      \<not> (\<exists>row \<in> set df. date row \<notin> full_date ` set (dim_date d))"
    by (auto simp: filter_empty_conv notna_def fetch_date_id_None [symmetric] split: option.splits)
  show ?thesis
  proof (cases "filter (\<lambda>(row, i). \<not> notna i) ?df = []")
    case True
    with miss have "\<not> (\<exists>row \<in> set df. date row \<notin> full_date ` set (dim_date d))" by simp
    with assms(1) m c True show ?thesis
      by (simp add: load_eia_prices_def Let_def)
  next
    case False
    with miss have "\<exists>row \<in> set df. date row \<notin> full_date ` set (dim_date d)" by simp
    with assms(1) m c False concat_case_dropna [of average_fact ?df] show ?thesis
      by (simp add: load_eia_prices_def Let_def)
  qed
qed

lemma kept_rows_keyed:
  fixes df :: "price_row list"
  assumes "i < length (filter (\<lambda>row. date row \<in> full_date ` set date_df) df)"
  shows "\<exists>r \<in> set date_df. full_date r = date (filter (\<lambda>row. date row \<in> full_date ` set date_df) df ! i) \<and>
           map (\<lambda>row. mk row (the (fetch_date_id date_df (date row))))
               (filter (\<lambda>row. date row \<in> full_date ` set date_df) df) ! i =
           mk (filter (\<lambda>row. date row \<in> full_date ` set date_df) df ! i) (date_id r)"
proof -
  let ?kept = "filter (\<lambda>row. date row \<in> full_date ` set date_df) df"
  from assms have "?kept ! i \<in> set ?kept" by (rule nth_mem)
  then have "date (?kept ! i) \<in> full_date ` set date_df" by simp
  then obtain j where j: "fetch_date_id date_df (date (?kept ! i)) = Some j"
    using fetch_date_id_None [of date_df "date (?kept ! i)"] by auto
  from fetch_date_id_Some [OF j] obtain r where
    "r \<in> set date_df" "full_date r = date (?kept ! i)" "date_id r = j"
    by blast
  with j assms show ?thesis by auto
qed

text \<open>
  C2. For a cleaned price table \<open>df\<close>, \<open>load_electricity_prices\<close> appends one fact
  row for each row of \<open>df\<close> whose date is the \<open>full_date\<close> of a row of
  \<open>dim_date\<close>, in order, and returns their number: the \<open>i\<close>-th appended row is built
  from the \<open>i\<close>-th such row of \<open>df\<close> and carries the \<open>date_id\<close> of a dimension row
  with that date. Rows with an unmatched date are not appended and not counted; for a
  one-row table with an unmatched date nothing is appended and exactly one warning line
  is printed. When no date occurs twice in \<open>dim_date\<close>, the same holds of
  \<open>load_eia_prices\<close>.
\<close>

theorem load_prices_resolves_date_keys:
  assumes "eia_prices_clean fs = Some df"
  shows
    "(\<exists>new g. load_electricity_prices fs l =
         (Inr (length new),
          l\<lparr> db := (db l)\<lparr> fact_electricity_prices := fact_electricity_prices (db l) @ new \<rparr> \<rparr>, g) \<and>
       length new = length (filter (\<lambda>row. date row \<in> full_date ` set (dim_date (db l))) df) \<and>
       (\<forall>i < length new. \<exists>r \<in> set (dim_date (db l)).
          full_date r = date (filter (\<lambda>row. date row \<in> full_date ` set (dim_date (db l))) df ! i) \<and>
          pf_date_id (new ! i) = date_id r \<and>
          new ! i = retail_fact (filter (\<lambda>row. date row \<in> full_date ` set (dim_date (db l))) df ! i) (date_id r)) \<and>
       (\<forall>row. df = [row] \<and> date row \<notin> full_date ` set (dim_date (db l)) \<longrightarrow>
          new = [] \<and> length (filter is_warning g) = 1)) \<and>
     (distinct (map full_date (dim_date (db l))) \<longrightarrow>
      (\<exists>new g. load_eia_prices fs (db l) =
         (Inr (length new),
          (db l)\<lparr> fact_electricity_prices := fact_electricity_prices (db l) @ new \<rparr>, g) \<and>
       length new = length (filter (\<lambda>row. date row \<in> full_date ` set (dim_date (db l))) df) \<and>
       (\<forall>i < length new. \<exists>r \<in> set (dim_date (db l)).
          full_date r = date (filter (\<lambda>row. date row \<in> full_date ` set (dim_date (db l))) df ! i) \<and>
          pf_date_id (new ! i) = date_id r \<and>
          new ! i = average_fact (filter (\<lambda>row. date row \<in> full_date ` set (dim_date (db l))) df ! i) (date_id r)) \<and>
       (\<forall>row. df = [row] \<and> date row \<notin> full_date ` set (dim_date (db l)) \<longrightarrow>
          new = [] \<and> length (filter is_warning g) = 1)))"
proof -
  let ?dd = "dim_date (db l)"
  let ?kept = "filter (\<lambda>row. date row \<in> full_date ` set ?dd) df"
  have per_row: "\<exists>new g. load_electricity_prices fs l =
         (Inr (length new),
          l\<lparr> db := (db l)\<lparr> fact_electricity_prices := fact_electricity_prices (db l) @ new \<rparr> \<rparr>, g) \<and>
       length new = length ?kept \<and>
       (\<forall>i < length new. \<exists>r \<in> set ?dd. full_date r = date (?kept ! i) \<and>
          pf_date_id (new ! i) = date_id r \<and> new ! i = retail_fact (?kept ! i) (date_id r)) \<and>
       (\<forall>row. df = [row] \<and> date row \<notin> full_date ` set ?dd \<longrightarrow>
          new = [] \<and> length (filter is_warning g) = 1)"
  proof -
    let ?new = "map (\<lambda>row. retail_fact row (the (fetch_date_id ?dd (date row)))) ?kept"
    from load_electricity_prices_file [OF assms, of l] obtain g where
      g: "load_electricity_prices fs l =
            (Inr (length ?new),
             l\<lparr> db := (db l)\<lparr> fact_electricity_prices := fact_electricity_prices (db l) @ ?new \<rparr> \<rparr>, g)"
         "length (filter is_warning g) = (if ?new = [] then 1 else 0)"
      unfolding concat_case_filter by blast
    have keys: "\<exists>r \<in> set ?dd. full_date r = date (?kept ! i) \<and>
          pf_date_id (?new ! i) = date_id r \<and> ?new ! i = retail_fact (?kept ! i) (date_id r)"
      if "i < length ?new" for i
    proof -
      from that have "i < length ?kept" by simp
      from kept_rows_keyed [OF this, of retail_fact] obtain r where
        "r \<in> set ?dd" "full_date r = date (?kept ! i)" "?new ! i = retail_fact (?kept ! i) (date_id r)"
        by blast
      moreover from this(3) have "pf_date_id (?new ! i) = date_id r"
        by (simp add: retail_fact_def)
      ultimately show ?thesis by blast
    qed
    have one: "?new = [] \<and> length (filter is_warning g) = 1"
      if "df = [row] \<and> date row \<notin> full_date ` set ?dd" for row
      using that g(2) by simp
    have "length ?new = length ?kept" by simp
    with g(1) keys one show ?thesis by blast
  qed
  have bulk: "\<exists>new g. load_eia_prices fs (db l) =
         (Inr (length new),
          (db l)\<lparr> fact_electricity_prices := fact_electricity_prices (db l) @ new \<rparr>, g) \<and>
       length new = length ?kept \<and>
       (\<forall>i < length new. \<exists>r \<in> set ?dd. full_date r = date (?kept ! i) \<and>
          pf_date_id (new ! i) = date_id r \<and> new ! i = average_fact (?kept ! i) (date_id r)) \<and>
       (\<forall>row. df = [row] \<and> date row \<notin> full_date ` set ?dd \<longrightarrow>
          new = [] \<and> length (filter is_warning g) = 1)"
    if uniq: "distinct (map full_date ?dd)"
  proof -
    let ?new = "map (\<lambda>row. average_fact row (the (fetch_date_id ?dd (date row)))) ?kept"
    from load_eia_prices_file [OF assms uniq] obtain g where
      g: "load_eia_prices fs (db l) =
            (Inr (length ?new),
             (db l)\<lparr> fact_electricity_prices := fact_electricity_prices (db l) @ ?new \<rparr>, g)"
         "length (filter is_warning g) =
            (if \<exists>row \<in> set df. date row \<notin> full_date ` set ?dd then 1 else 0)"
      unfolding concat_case_filter by blast
    have keys: "\<exists>r \<in> set ?dd. full_date r = date (?kept ! i) \<and>
          pf_date_id (?new ! i) = date_id r \<and> ?new ! i = average_fact (?kept ! i) (date_id r)"
      if "i < length ?new" for i
    proof -
      from that have "i < length ?kept" by simp
      from kept_rows_keyed [OF this, of average_fact] obtain r where
        "r \<in> set ?dd" "full_date r = date (?kept ! i)" "?new ! i = average_fact (?kept ! i) (date_id r)"
        by blast
      moreover from this(3) have "pf_date_id (?new ! i) = date_id r"
        by (simp add: average_fact_def)
      ultimately show ?thesis by blast
    qed
    have one: "?new = [] \<and> length (filter is_warning g) = 1"
      if "df = [row] \<and> date row \<notin> full_date ` set ?dd" for row
      using that g(2) by simp
    have "length ?new = length ?kept" by simp
    with g(1) keys one show ?thesis by blast
  qed
  from per_row bulk show ?thesis by blast
qed

lemma fs_unmatched_file: "eia_prices_clean fs_unmatched = Some [price_row_unmatched]"
  by (simp add: fs_unmatched_def)

lemma fs_matched_file: "eia_prices_clean fs_matched = Some [price_example_row]"
  by (simp add: fs_matched_def)

lemma db_example_dates:
  "dim_date (db (connect db_example)) =
     [\<lparr> date_id = 20230501, full_date = (2023, 5, 1) \<rparr>,
      \<lparr> date_id = 20230502, full_date = (2023, 5, 2) \<rparr>,
      \<lparr> date_id = 20230601, full_date = (2023, 6, 1) \<rparr>]"
  by (simp add: connect_def db_example_def)

lemma db_example_distinct: "distinct (map full_date (dim_date (db (connect db_example))))"
  by (simp add: db_example_dates)

lemma price_row_unmatched_date:
  "date price_row_unmatched \<notin> full_date ` set (dim_date (db (connect db_example)))"
  by (simp add: db_example_dates price_row_unmatched_def)

lemma price_example_row_date: "date price_example_row = (2023, 5, 1)"
  by (simp add: price_example_row_def)

theorem load_prices_resolves_date_keys_witness:
  "eia_prices_clean fs_unmatched = Some [price_row_unmatched] \<and>
   date price_row_unmatched \<notin> full_date ` set (dim_date (db (connect db_example))) \<and>
   distinct (map full_date (dim_date (db (connect db_example)))) \<and>
   (\<exists>g. load_electricity_prices fs_unmatched (connect db_example) = (Inr 0, connect db_example, g) \<and>
        length (filter is_warning g) = 1) \<and>
   (\<exists>g. load_eia_prices fs_unmatched (db (connect db_example)) = (Inr 0, db (connect db_example), g) \<and>
        length (filter is_warning g) = 1) \<and>
   eia_prices_clean fs_matched = Some [price_example_row] \<and>
   (\<exists>new g. load_electricity_prices fs_matched (connect db_example) =
        (Inr 1, (connect db_example)\<lparr> db := (db (connect db_example))\<lparr> fact_electricity_prices := new \<rparr> \<rparr>, g) \<and>
        length new = 1 \<and> pf_date_id (new ! 0) = 20230501)"
proof -
  note u = load_prices_resolves_date_keys [OF fs_unmatched_file, of "connect db_example"]
  note m = load_prices_resolves_date_keys [OF fs_matched_file, of "connect db_example"]
  from u price_row_unmatched_date
  have a: "\<exists>g. load_electricity_prices fs_unmatched (connect db_example) = (Inr 0, connect db_example, g) \<and>
        length (filter is_warning g) = 1"
    by auto
  from u price_row_unmatched_date db_example_distinct
  have b: "\<exists>g. load_eia_prices fs_unmatched (db (connect db_example)) = (Inr 0, db (connect db_example), g) \<and>
        length (filter is_warning g) = 1"
    by auto
  have kept: "filter (\<lambda>row. date row \<in> full_date ` set (dim_date (db (connect db_example)))) [price_example_row] =
      [price_example_row]"
    by (simp add: db_example_dates price_example_row_date)
  have empty: "fact_electricity_prices (db (connect db_example)) = []"
    by (simp add: connect_def db_example_def)
  from conjunct1 [OF m [unfolded kept]] obtain new g where
    n: "load_electricity_prices fs_matched (connect db_example) =
         (Inr (length new),
          (connect db_example)\<lparr> db := (db (connect db_example))\<lparr> fact_electricity_prices :=
             fact_electricity_prices (db (connect db_example)) @ new \<rparr> \<rparr>, g)"
       "length new = length [price_example_row]"
       "\<forall>i < length new. \<exists>r \<in> set (dim_date (db (connect db_example))).
          full_date r = date ([price_example_row] ! i) \<and> pf_date_id (new ! i) = date_id r \<and>
          new ! i = retail_fact ([price_example_row] ! i) (date_id r)"
    by blast
  from n(2,3) have "\<exists>r \<in> set (dim_date (db (connect db_example))).
      full_date r = date price_example_row \<and> pf_date_id (new ! 0) = date_id r"
    by auto
  then have "pf_date_id (new ! 0) = 20230501"
    by (auto simp: db_example_dates price_example_row_date)
  with n(1,2) empty
  have c: "\<exists>new g. load_electricity_prices fs_matched (connect db_example) =
        (Inr 1, (connect db_example)\<lparr> db := (db (connect db_example))\<lparr> fact_electricity_prices := new \<rparr> \<rparr>, g) \<and>
        length new = 1 \<and> pf_date_id (new ! 0) = 20230501"
    by auto
  from a b c fs_unmatched_file fs_matched_file price_row_unmatched_date db_example_distinct
  show ?thesis by blast
qed

text \<open>
  C7. The two loaders do not write the same rows: on a one-row table whose date is in
  \<open>dim_date\<close>, \<open>load_electricity_prices\<close> writes price type \<open>retail\<close> and sector
  \<open>all\<close>, and \<open>load_eia_prices\<close> writes price type \<open>average\<close> and the row's
  \<open>sectorName\<close>.
\<close>

theorem price_loaders_tags_counterexample:
  "eia_prices_clean fs_matched = Some [price_example_row] \<and>
   distinct (map full_date (dim_date db_example)) \<and>
   fact_electricity_prices (db (fst (snd (load_electricity_prices fs_matched (connect db_example))))) =
     [retail_fact price_example_row 20230501] \<and>
   fact_electricity_prices (fst (snd (load_eia_prices fs_matched db_example))) =
     [average_fact price_example_row 20230501] \<and>
   price_type (retail_fact price_example_row 20230501) = ''retail'' \<and>
   price_type (average_fact price_example_row 20230501) = ''average'' \<and>
   sector (retail_fact price_example_row 20230501) = Some ''all'' \<and>
   sector (average_fact price_example_row 20230501) = Some ''all sectors'' \<and>
   set (fact_electricity_prices (db (fst (snd (load_electricity_prices fs_matched (connect db_example)))))) \<noteq>
   set (fact_electricity_prices (fst (snd (load_eia_prices fs_matched db_example))))"
proof -
  have per_row: "fact_electricity_prices (db (fst (snd (load_electricity_prices fs_matched (connect db_example))))) =
      [retail_fact price_example_row 20230501]"
    by (simp add: load_electricity_prices_def fs_matched_def iterrows_def connect_def db_example_def
        fetch_date_id_def price_example_row_date to_sql_def)
  have bulk: "fact_electricity_prices (fst (snd (load_eia_prices fs_matched db_example))) =
      [average_fact price_example_row 20230501]"
    by (simp add: load_eia_prices_def fs_matched_def db_example_def merge_left_def
        price_example_row_date notna_def Let_def)
  have tags: "price_type (retail_fact price_example_row 20230501) = ''retail''"
    "price_type (average_fact price_example_row 20230501) = ''average''"
    "sector (retail_fact price_example_row 20230501) = Some ''all''"
    "sector (average_fact price_example_row 20230501) = Some ''all sectors''"
    by (simp_all add: retail_fact_def average_fact_def price_example_row_def)
  from tags(1,2) have "retail_fact price_example_row 20230501 \<noteq> average_fact price_example_row 20230501"
    by auto
  with per_row bulk have "set (fact_electricity_prices (db (fst (snd (load_electricity_prices fs_matched (connect db_example)))))) \<noteq>
      set (fact_electricity_prices (fst (snd (load_eia_prices fs_matched db_example))))"
    by simp
  moreover have "distinct (map full_date (dim_date db_example))"
    by (simp add: db_example_def)
  ultimately show ?thesis using per_row bulk tags fs_matched_file by blast
qed

text \<open>
  C7, amended. On the same cleaned price table and the same \<open>dim_date\<close> in which no
  date occurs twice, the two loaders return the same count and append rows that agree,
  position by position, in region, date key, both prices and sales volume; they differ
  in the tags only, \<open>retail\<close> and \<open>all\<close> against \<open>average\<close> and the row's
  \<open>sectorName\<close>.
\<close>

theorem price_loaders_agree_up_to_tags:
  assumes "eia_prices_clean fs = Some df" and "distinct (map full_date (dim_date (db l)))"
  shows "\<exists>new1 g1 new2 g2.
           load_electricity_prices fs l =
             (Inr (length new1),
              l\<lparr> db := (db l)\<lparr> fact_electricity_prices := fact_electricity_prices (db l) @ new1 \<rparr> \<rparr>, g1) \<and>
           load_eia_prices fs (db l) =
             (Inr (length new2),
              (db l)\<lparr> fact_electricity_prices := fact_electricity_prices (db l) @ new2 \<rparr>, g2) \<and>
           length new1 = length new2 \<and>
           map (\<lambda>p. (region p, pf_date_id p, pf_price_per_kwh p, pf_price_cents_per_kwh p, pf_sales_mwh p)) new1 =
           map (\<lambda>p. (region p, pf_date_id p, pf_price_per_kwh p, pf_price_cents_per_kwh p, pf_sales_mwh p)) new2 \<and>
           (\<forall>p \<in> set new1. price_type p = ''retail'' \<and> sector p = Some ''all'') \<and>
           (\<forall>p \<in> set new2. price_type p = ''average'') \<and>
           map sector new2 =
             map sector_name (filter (\<lambda>row. date row \<in> full_date ` set (dim_date (db l))) df)"
proof -
  let ?dd = "dim_date (db l)"
  let ?kept = "filter (\<lambda>row. date row \<in> full_date ` set ?dd) df"
  let ?new1 = "map (\<lambda>row. retail_fact row (the (fetch_date_id ?dd (date row)))) ?kept"
  let ?new2 = "map (\<lambda>row. average_fact row (the (fetch_date_id ?dd (date row)))) ?kept"
  from load_electricity_prices_file [OF assms(1), of l] obtain g1 where
    g1: "load_electricity_prices fs l =
          (Inr (length ?new1),
           l\<lparr> db := (db l)\<lparr> fact_electricity_prices := fact_electricity_prices (db l) @ ?new1 \<rparr> \<rparr>, g1)"
    unfolding concat_case_filter by blast
  from load_eia_prices_file [OF assms] obtain g2 where
    g2: "load_eia_prices fs (db l) =
          (Inr (length ?new2),
           (db l)\<lparr> fact_electricity_prices := fact_electricity_prices (db l) @ ?new2 \<rparr>, g2)"
    unfolding concat_case_filter by blast
  have len: "length ?new1 = length ?new2" by simp
  have core: "map (\<lambda>p. (region p, pf_date_id p, pf_price_per_kwh p, pf_price_cents_per_kwh p, pf_sales_mwh p)) ?new1 =
      map (\<lambda>p. (region p, pf_date_id p, pf_price_per_kwh p, pf_price_cents_per_kwh p, pf_sales_mwh p)) ?new2"
    by (simp add: retail_fact_def average_fact_def comp_def)
  have t1: "\<forall>p \<in> set ?new1. price_type p = ''retail'' \<and> sector p = Some ''all''"
    by (auto simp: retail_fact_def)
  have t2: "\<forall>p \<in> set ?new2. price_type p = ''average''"
    by (auto simp: average_fact_def)
  have t3: "map sector ?new2 = map sector_name ?kept"
    by (simp add: average_fact_def comp_def)
  from g1 g2 len core t1 t2 t3 show ?thesis by blast
qed

theorem price_loaders_agree_up_to_tags_witness:
  "eia_prices_clean fs_matched = Some [price_example_row] \<and>
   distinct (map full_date (dim_date (db (connect db_example)))) \<and>
   (\<exists>new1 g1 new2 g2.
      load_electricity_prices fs_matched (connect db_example) =
        (Inr (length new1),
         (connect db_example)\<lparr> db := (db (connect db_example))\<lparr> fact_electricity_prices :=
            fact_electricity_prices (db (connect db_example)) @ new1 \<rparr> \<rparr>, g1) \<and>
      load_eia_prices fs_matched (db (connect db_example)) =
        (Inr (length new2),
         (db (connect db_example))\<lparr> fact_electricity_prices :=
            fact_electricity_prices (db (connect db_example)) @ new2 \<rparr>, g2) \<and>
      length new1 = length new2 \<and>
      map (\<lambda>p. (region p, pf_date_id p, pf_price_per_kwh p, pf_price_cents_per_kwh p, pf_sales_mwh p)) new1 =
      map (\<lambda>p. (region p, pf_date_id p, pf_price_per_kwh p, pf_price_cents_per_kwh p, pf_sales_mwh p)) new2)"
proof -
  note h = price_loaders_agree_up_to_tags [OF fs_matched_file db_example_distinct]
  then have "\<exists>new1 g1 new2 g2.
      load_electricity_prices fs_matched (connect db_example) =
        (Inr (length new1),
         (connect db_example)\<lparr> db := (db (connect db_example))\<lparr> fact_electricity_prices :=
            fact_electricity_prices (db (connect db_example)) @ new1 \<rparr> \<rparr>, g1) \<and>
      load_eia_prices fs_matched (db (connect db_example)) =
        (Inr (length new2),
         (db (connect db_example))\<lparr> fact_electricity_prices :=
            fact_electricity_prices (db (connect db_example)) @ new2 \<rparr>, g2) \<and>
      length new1 = length new2 \<and>
      map (\<lambda>p. (region p, pf_date_id p, pf_price_per_kwh p, pf_price_cents_per_kwh p, pf_sales_mwh p)) new1 =
      map (\<lambda>p. (region p, pf_date_id p, pf_price_per_kwh p, pf_price_cents_per_kwh p, pf_sales_mwh p)) new2"
    by blast
  with fs_matched_file db_example_distinct show ?thesis by blast
qed

section \<open>Properties of the consumption generator\<close>

lemma dates_loop_length [simp]:
  "length (fst (dates_loop rnd dc dates k)) = length dates"
proof (induction dates arbitrary: k)
  case Nil
  then show ?case by simp
next
  case (Cons dt dates)
  obtain recs k' where d: "dates_loop rnd dc dates (k + 2) = (recs, k')"
    by (cases "dates_loop rnd dc dates (k + 2)")
  with Cons [of "k + 2"] show ?case by simp
qed

lemma dates_loop_position [simp]:
  "snd (dates_loop rnd dc dates k) = k + 2 * length dates"
proof (induction dates arbitrary: k)
  case Nil
  then show ?case by simp
next
  case (Cons dt dates)
  obtain recs k' where d: "dates_loop rnd dc dates (k + 2) = (recs, k')"
    by (cases "dates_loop rnd dc dates (k + 2)")
  with Cons [of "k + 2"] show ?case by simp
qed

lemma dates_loop_nth:
  assumes "j < length dates"
  shows "fst (dates_loop rnd dc dates k) ! j =
           consumption_record dc (dates ! j) (rnd (k + 2 * j)) (rnd (k + 2 * j + 1))"
  using assms
proof (induction dates arbitrary: k j)
  case Nil
  then show ?case by simp
next
  case (Cons dt dates)
  obtain recs k' where d: "dates_loop rnd dc dates (k + 2) = (recs, k')"
    by (cases "dates_loop rnd dc dates (k + 2)")
  show ?case
  proof (cases j)
    case 0
    with d show ?thesis by simp
  next
    case (Suc i)
    with Cons.prems have "i < length dates" by simp
    from Cons.IH [OF this, of "k + 2"] d
    have "recs ! i = consumption_record dc (dates ! i) (rnd (k + 2 + 2 * i)) (rnd (k + 2 + 2 * i + 1))"
      by simp
    with d Suc show ?thesis by (simp add: add.commute add.left_commute)
  qed
qed

lemma datacenters_loop_length [simp]:
  "length (fst (datacenters_loop rnd dcs dates k)) = length dcs * length dates"
proof (induction dcs arbitrary: k)
  case Nil
  then show ?case by simp
next
  case (Cons dc dcs)
  obtain recs k' where d: "dates_loop rnd dc dates k = (recs, k')"
    by (cases "dates_loop rnd dc dates k")
  obtain recs' k'' where e: "datacenters_loop rnd dcs dates k' = (recs', k'')"
    by (cases "datacenters_loop rnd dcs dates k'")
  from dates_loop_length [of rnd dc dates k] d have "length recs = length dates" by simp
  moreover from Cons [of k'] e have "length recs' = length dcs * length dates" by simp
  ultimately show ?case using d e by simp
qed

lemma datacenters_loop_nth:
  assumes "j < length dcs * length dates"
  shows "fst (datacenters_loop rnd dcs dates k) ! j =
           consumption_record (dcs ! (j div length dates)) (dates ! (j mod length dates))
             (rnd (k + 2 * j)) (rnd (k + 2 * j + 1))"
  using assms
proof (induction dcs arbitrary: k j)
  case Nil
  then show ?case by simp
next
  case (Cons dc dcs)
  let ?m = "length dates"
  obtain recs k' where d: "dates_loop rnd dc dates k = (recs, k')"
    by (cases "dates_loop rnd dc dates k")
  obtain recs' k'' where e: "datacenters_loop rnd dcs dates k' = (recs', k'')"
    by (cases "datacenters_loop rnd dcs dates k'")
  from dates_loop_length [of rnd dc dates k] d have lr: "length recs = ?m" by simp
  from dates_loop_position [of rnd dc dates k] d have k': "k' = k + 2 * ?m" by simp
  from d e have all: "fst (datacenters_loop rnd (dc # dcs) dates k) = recs @ recs'" by simp
  show ?case
  proof (cases "j < ?m")
    case True
    from dates_loop_nth [OF True, of rnd dc k] d
    have "recs ! j = consumption_record dc (dates ! j) (rnd (k + 2 * j)) (rnd (k + 2 * j + 1))"
      by simp
    with True lr all show ?thesis by (simp add: nth_append)
  next
    case False
    then have ge: "?m \<le> j" by simp
    from Cons.prems have pos: "0 < ?m" by (cases "?m = 0") simp_all
    from Cons.prems ge have lt: "j - ?m < length dcs * ?m" by simp
    from Cons.IH [OF lt, of k'] e
    have "recs' ! (j - ?m) =
        consumption_record (dcs ! ((j - ?m) div ?m)) (dates ! ((j - ?m) mod ?m))
          (rnd (k' + 2 * (j - ?m))) (rnd (k' + 2 * (j - ?m) + 1))"
      by simp
    moreover from ge have "k' + 2 * (j - ?m) = k + 2 * j" by (simp add: k')
    moreover from pos ge have "j div ?m = Suc ((j - ?m) div ?m)" by (rule le_div_geq)
    moreover from ge have "j mod ?m = (j - ?m) mod ?m" by (rule le_mod_geq)
    ultimately show ?thesis using False lr all by (simp add: nth_append)
  qed
qed

text \<open>The two outcomes of the generator.\<close>

lemma generate_raises:
  assumes "dim_datacenters (db l) \<noteq> []" and "monthly_dates (dim_date (db l)) \<noteq> []"
    and "none_objects (map (\<lambda>dc. dc_capacity_mw (cols dc)) (dim_datacenters (db l)))"
  shows "generate_sample_energy_consumption rnd l =
           (Inl TypeError, l,
            [Info ''Generating sample energy consumption data...'',
             Generating (length (dim_datacenters (db l))) (length (monthly_dates (dim_date (db l))))])"
  using assms by (simp add: generate_sample_energy_consumption_def Let_def)

lemma generate_returns:
  assumes "\<not> (dim_datacenters (db l) \<noteq> [] \<and> monthly_dates (dim_date (db l)) \<noteq> [] \<and>
              none_objects (map (\<lambda>dc. dc_capacity_mw (cols dc)) (dim_datacenters (db l))))"
  shows "generate_sample_energy_consumption rnd l =
           (Inr (length (fst (datacenters_loop rnd (dim_datacenters (db l)) (monthly_dates (dim_date (db l))) 0))),
            l\<lparr> db := (db l)\<lparr> fact_energy_consumption := fact_energy_consumption (db l) @
                 fst (datacenters_loop rnd (dim_datacenters (db l)) (monthly_dates (dim_date (db l))) 0) \<rparr> \<rparr>,
            [Info ''Generating sample energy consumption data...'',
             Generating (length (dim_datacenters (db l))) (length (monthly_dates (dim_date (db l)))),
             Count ''Generated consumption records''
               (length (fst (datacenters_loop rnd (dim_datacenters (db l)) (monthly_dates (dim_date (db l))) 0)))])"
  using assms by (auto simp: generate_sample_energy_consumption_def Let_def to_sql_def)

lemma none_objects_iff:
  "none_objects (map (\<lambda>dc. dc_capacity_mw (cols dc)) dcs) \<longleftrightarrow>
     (\<forall>dc \<in> set dcs. dc_capacity_mw (cols dc) = None)"
  by (auto simp: none_objects_def list_all_iff notna_def split: option.splits)

text \<open>Rounding to hundredths: the result is a hundredth, at most half a hundredth away,
  and stays between two bounds that are hundredths.\<close>

lemma round_half_even_floor:
  "round_half_even x = \<lfloor>x\<rfloor> \<or> round_half_even x = \<lfloor>x\<rfloor> + 1"
  by (simp add: round_half_even_def Let_def)

lemma round_half_even_int [simp]: "round_half_even (of_int n) = n"
  by (simp add: round_half_even_def Let_def)

lemma round_half_even_near: "\<bar>of_int (round_half_even x) - x\<bar> \<le> 1 / 2"
proof -
  define f where "f = \<lfloor>x\<rfloor>"
  have fl: "of_int f \<le> x" "x < of_int f + 1" unfolding f_def by linarith+
  consider "x - of_int f < 1 / 2" | "1 / 2 < x - of_int f" | "x - of_int f = 1 / 2"
    by linarith
  then show ?thesis
  proof cases
    case 1
    then have "round_half_even x = f" by (simp add: round_half_even_def Let_def f_def)
    with fl 1 show ?thesis by simp
  next
    case 2
    then have "round_half_even x = f + 1" by (simp add: round_half_even_def Let_def f_def)
    with fl 2 show ?thesis by simp
  next
    case 3
    then have "round_half_even x = f \<or> round_half_even x = f + 1"
      by (simp add: round_half_even_def Let_def f_def)
    with fl 3 show ?thesis by auto
  qed
qed

lemma round_half_even_ge:
  assumes "of_int n \<le> x"
  shows "n \<le> round_half_even x"
proof -
  from assms have "n \<le> \<lfloor>x\<rfloor>" by (simp add: le_floor_iff)
  with round_half_even_floor [of x] show ?thesis by auto
qed

lemma round_half_even_le:
  assumes "x \<le> of_int m"
  shows "round_half_even x \<le> m"
proof (cases "x = of_int m")
  case True
  then show ?thesis by simp
next
  case False
  with assms have "x < of_int m" by simp
  then have "\<lfloor>x\<rfloor> < m" by (simp add: floor_less_iff)
  with round_half_even_floor [of x] show ?thesis by auto
qed

lemma round2_bounds:
  assumes "of_int n / 100 \<le> x" and "x \<le> of_int m / 100"
  shows "of_int n / 100 \<le> round2 x \<and> round2 x \<le> of_int m / 100"
proof -
  from assms have "of_int n \<le> x * 100" "x * 100 \<le> of_int m" by simp_all
  then have "n \<le> round_half_even (x * 100)" "round_half_even (x * 100) \<le> m"
    by (simp_all add: round_half_even_ge round_half_even_le)
  then have "(of_int n :: real) \<le> of_int (round_half_even (x * 100))"
    "(of_int (round_half_even (x * 100)) :: real) \<le> of_int m"
    by simp_all
  then show ?thesis by (simp add: round2_def divide_right_mono)
qed

lemma round2_hundredth: "\<exists>n :: int. round2 x = of_int n / 100 \<and> \<bar>round2 x - x\<bar> \<le> 1 / 200"
proof -
  from round_half_even_near [of "x * 100"]
  have "\<bar>of_int (round_half_even (x * 100)) / 100 - x\<bar> \<le> 1 / 200"
    by (simp add: abs_if field_simps split: if_splits)
  then show ?thesis by (auto simp: round2_def)
qed

lemma round2_zero [simp]: "round2 0 = 0"
  by (simp add: round2_def round_half_even_def)

lemma energy_ai_100:
  assumes "0.85 \<le> u" "u \<le> 0.95"
  shows "62050 \<le> round2 (100 * 730 * u) \<and> round2 (100 * 730 * u) \<le> 69350"
proof -
  from assms have "of_int 6205000 / 100 \<le> 100 * 730 * u"
    "100 * 730 * u \<le> of_int 6935000 / 100"
    by simp_all
  from round2_bounds [OF this] show ?thesis by simp
qed

lemma round2_pue_range:
  shows "1.15 \<le> p \<Longrightarrow> p \<le> 1.30 \<Longrightarrow> 1.15 \<le> round2 p \<and> round2 p \<le> 1.30"
    and "1.35 \<le> p \<Longrightarrow> p \<le> 1.60 \<Longrightarrow> 1.35 \<le> round2 p \<and> round2 p \<le> 1.60"
proof -
  show "1.15 \<le> round2 p \<and> round2 p \<le> 1.30" if "1.15 \<le> p" "p \<le> 1.30"
  proof -
    from that have "of_int 115 / 100 \<le> p" "p \<le> of_int 130 / 100" by simp_all
    from round2_bounds [OF this] show ?thesis by simp
  qed
  show "1.35 \<le> round2 p \<and> round2 p \<le> 1.60" if "1.35 \<le> p" "p \<le> 1.60"
  proof -
    from that have "of_int 135 / 100 \<le> p" "p \<le> of_int 160 / 100" by simp_all
    from round2_bounds [OF this] show ?thesis by simp
  qed
qed

lemma consumption_record_fields:
  assumes "0 \<le> r1" "r1 < 1" "0 \<le> r2" "r2 < 1"
    and u: "u = (if dc_is_ai_focused (cols dc) then 0.85 + 0.10 * r1 else 0.70 + 0.20 * r1)"
    and p: "p = (if dc_is_ai_focused (cols dc) then 1.15 + 0.15 * r2 else 1.35 + 0.25 * r2)"
  shows
    "(if dc_is_ai_focused (cols dc) then 0.85 \<le> u \<and> u \<le> 0.95 \<and> 1.15 \<le> p \<and> p \<le> 1.30
      else 0.70 \<le> u \<and> u \<le> 0.90 \<and> 1.35 \<le> p \<and> p \<le> 1.60) \<and>
     cf_datacenter_id (consumption_record dc dt r1 r2) = datacenter_id dc \<and>
     cf_date_id (consumption_record dc dt r1 r2) = date_id dt \<and>
     energy_consumed_mwh (consumption_record dc dt r1 r2) =
       map_option (\<lambda>c. round2 (c * 730 * u)) (dc_capacity_mw (cols dc)) \<and>
     renewable_energy_mwh (consumption_record dc dt r1 r2) =
       map_option (\<lambda>c. round2 (c * 730 * u *
                     ((case renewable_energy_pct (cols dc) of Some q \<Rightarrow> q | None \<Rightarrow> 0) / 100)))
         (dc_capacity_mw (cols dc)) \<and>
     pue_ratio (consumption_record dc dt r1 r2) = round2 p \<and>
     (if dc_is_ai_focused (cols dc)
      then 1.15 \<le> pue_ratio (consumption_record dc dt r1 r2) \<and> pue_ratio (consumption_record dc dt r1 r2) \<le> 1.30
      else 1.35 \<le> pue_ratio (consumption_record dc dt r1 r2) \<and> pue_ratio (consumption_record dc dt r1 r2) \<le> 1.60) \<and>
     source (consumption_record dc dt r1 r2) = ''estimated'' \<and>
     (dc_is_ai_focused (cols dc) \<and> dc_capacity_mw (cols dc) = Some 100 \<longrightarrow>
        (\<exists>e. energy_consumed_mwh (consumption_record dc dt r1 r2) = Some e \<and> 62050 \<le> e \<and> e \<le> 69350))"
proof -
  let ?ai = "dc_is_ai_focused (cols dc)"
  let ?r = "consumption_record dc dt r1 r2"
  have u': "utilization ?ai r1 = u" and p': "pue ?ai r2 = p"
    by (simp_all add: utilization_def pue_def u p)
  have ranges: "if ?ai then 0.85 \<le> u \<and> u \<le> 0.95 \<and> 1.15 \<le> p \<and> p \<le> 1.30
      else 0.70 \<le> u \<and> u \<le> 0.90 \<and> 1.35 \<le> p \<and> p \<le> 1.60"
    using assms(1-4) by (cases ?ai) (simp_all add: u p)
  have keys: "cf_datacenter_id ?r = datacenter_id dc" "cf_date_id ?r = date_id dt"
    "source ?r = ''estimated''" "pue_ratio ?r = round2 p"
    using p' by (simp_all add: consumption_record_def Let_def)
  have energy: "energy_consumed_mwh ?r = map_option (\<lambda>c. round2 (c * 730 * u)) (dc_capacity_mw (cols dc))"
    using u' by (cases "dc_capacity_mw (cols dc)")
      (simp_all add: consumption_record_def Let_def monthly_consumption_def hours_in_month_def)
  have renewable: "renewable_energy_mwh ?r =
       map_option (\<lambda>c. round2 (c * 730 * u *
                     ((case renewable_energy_pct (cols dc) of Some q \<Rightarrow> q | None \<Rightarrow> 0) / 100)))
         (dc_capacity_mw (cols dc))"
    using u' by (cases "dc_capacity_mw (cols dc)")
      (simp_all add: consumption_record_def Let_def monthly_consumption_def renewable_mwh_def
        hours_in_month_def)
  have pue_stored: "if ?ai then 1.15 \<le> pue_ratio ?r \<and> pue_ratio ?r \<le> 1.30
      else 1.35 \<le> pue_ratio ?r \<and> pue_ratio ?r \<le> 1.60"
    using ranges round2_pue_range [of p] keys(4) by (cases ?ai) simp_all
  have scenario: "\<exists>e. energy_consumed_mwh ?r = Some e \<and> 62050 \<le> e \<and> e \<le> 69350"
    if "?ai \<and> dc_capacity_mw (cols dc) = Some 100"
  proof -
    from that ranges have "0.85 \<le> u" "u \<le> 0.95" by simp_all
    from energy_ai_100 [OF this] that energy show ?thesis by simp
  qed
  from ranges keys energy renewable pue_stored scenario show ?thesis by blast
qed


lemma rnd_half_range: "\<forall>i. 0 \<le> rnd_half i \<and> rnd_half i < 1"
  by (simp add: rnd_half_def)

lemma db_loaded_example_dcs: "dim_datacenters (db (connect db_loaded_example)) = [dc_example, dc_no_pct]"
  by (simp add: connect_def db_loaded_example_def)

lemma db_loaded_example_months:
  "monthly_dates (dim_date (db (connect db_loaded_example))) =
     [\<lparr> date_id = 20230501, full_date = (2023, 5, 1) \<rparr>, \<lparr> date_id = 20230601, full_date = (2023, 6, 1) \<rparr>]"
  by (simp add: connect_def db_loaded_example_def db_example_def monthly_dates_def)

lemma dc_examples_ai_100:
  "dc_is_ai_focused (cols dc_example) \<and> dc_capacity_mw (cols dc_example) = Some 100"
  "dc_is_ai_focused (cols dc_no_pct) \<and> dc_capacity_mw (cols dc_no_pct) = Some 100"
  by (simp_all add: dc_example_def dc_no_pct_def to_datacenter_cols_def clip_renewable_def
      normalise_state_def facility_150_def facility_no_pct_def astype_bool_def)

lemma db_loaded_example_generates:
  "\<exists>l' g. generate_sample_energy_consumption rnd (connect db_loaded_example) = (Inr 4, l', g)"
proof -
  have "\<not> (dim_datacenters (db (connect db_loaded_example)) \<noteq> [] \<and>
            monthly_dates (dim_date (db (connect db_loaded_example))) \<noteq> [] \<and>
            none_objects (map (\<lambda>dc. dc_capacity_mw (cols dc)) (dim_datacenters (db (connect db_loaded_example)))))"
    by (simp add: db_loaded_example_dcs none_objects_def dc_examples_ai_100 notna_def)
  from generate_returns [OF this, of rnd] show ?thesis
    by (simp add: db_loaded_example_dcs db_loaded_example_months)
qed


lemma datacenters_loop_rows:
  assumes "r \<in> set (fst (datacenters_loop rnd dcs dates k))"
  shows "\<exists>dc \<in> set dcs. \<exists>dt \<in> set dates. \<exists>i. r = consumption_record dc dt (rnd i) (rnd (i + 1))"
proof -
  let ?m = "length dates"
  from assms obtain j where j: "j < length dcs * ?m" "fst (datacenters_loop rnd dcs dates k) ! j = r"
    by (auto simp: in_set_conv_nth)
  from j(1) have pos: "0 < ?m" by (cases "?m = 0") simp_all
  from j(1) have "j div ?m < length dcs"
    by (simp add: less_mult_imp_div_less)
  then have dc: "dcs ! (j div ?m) \<in> set dcs" by simp
  from pos have "j mod ?m < ?m" by simp
  then have dt: "dates ! (j mod ?m) \<in> set dates" by simp
  from datacenters_loop_nth [OF j(1), of rnd k] j(2)
  have "r = consumption_record (dcs ! (j div ?m)) (dates ! (j mod ?m)) (rnd (k + 2 * j)) (rnd (k + 2 * j + 1))"
    by simp
  with dc dt show ?thesis by blast
qed

lemma consumption_record_no_pct:
  assumes "renewable_energy_pct (cols dc) = None"
  shows "renewable_energy_mwh (consumption_record dc dt r1 r2) =
           (case dc_capacity_mw (cols dc) of None \<Rightarrow> None | Some c \<Rightarrow> Some 0)"
  using assms
  by (cases "dc_capacity_mw (cols dc)")
     (simp_all add: consumption_record_def Let_def renewable_mwh_def monthly_consumption_def)

lemma load_datacenters_appends:
  assumes "datacenters_clean fs = Some df" and "r \<in> set df"
  shows "\<exists>l' g. load_datacenters fs l = (Inr (length df), l', g) \<and>
           (\<exists>dc \<in> set (dim_datacenters (db l')). cols dc = to_datacenter_cols r)"
proof -
  from load_datacenters_file [OF assms(1), of l] obtain l' g where
    l': "load_datacenters fs l = (Inr (length df), l', g)"
      "dim_datacenters (db l') =
         dim_datacenters (db l) @ assign_ids (datacenter_id_seq (db l)) (map to_datacenter_cols df)"
    by blast
  from assms(2) have "to_datacenter_cols r \<in> set (map cols (assign_ids (datacenter_id_seq (db l)) (map to_datacenter_cols df)))"
    by simp
  then obtain dc where "dc \<in> set (assign_ids (datacenter_id_seq (db l)) (map to_datacenter_cols df))"
    "cols dc = to_datacenter_cols r"
    by (auto simp del: cols_assign_ids)
  with l' show ?thesis by auto
qed


lemma fs_dc_example_q: "facility_no_pct \<in> set (content snapshot_dc_example)"
  by (simp add: snapshot_dc_example_def)

lemma facility_no_pct_fields:
  "renewable_pct facility_no_pct = None" "capacity_mw facility_no_pct = Some 100"
  by (simp_all add: facility_no_pct_def facility_150_def)

lemma db_loaded_example_distinct:
  "distinct (map datacenter_id (dim_datacenters (db (connect db_loaded_example))))"
  by (simp add: db_loaded_example_dcs dc_example_def dc_no_pct_def)

lemma dc_no_pct_in: "dc_no_pct \<in> set (dim_datacenters (db (connect db_loaded_example)))"
  by (simp add: db_loaded_example_dcs)

lemma dc_no_pct_cols: "cols dc_no_pct = to_datacenter_cols (clip_renewable (normalise_state facility_no_pct))"
  by (simp add: dc_no_pct_def)


lemma fs_no_cap_latest: "get_latest_file (raw_datacenters fs_no_cap) = Inr snapshot_no_cap"
  by (simp add: get_latest_file_def fs_no_cap_def)

lemma facility_no_cap_box: "in_bounding_box facility_no_cap"
  by (simp add: in_bounding_box_def facility_no_cap_def facility_150_def cell_ge_def cell_le_def)

lemma fs_no_cap_clean:
  "clean_datacenter_data fs_no_cap =
     (Inr [clip_renewable (normalise_state facility_150), clip_renewable (normalise_state facility_no_cap)],
      fs_no_cap\<lparr> datacenters_clean :=
        Some [clip_renewable (normalise_state facility_150), clip_renewable (normalise_state facility_no_cap)] \<rparr>)"
proof -
  have "has_str_accessor (map fac_state (content snapshot_no_cap))"
    by (simp add: has_str_accessor_def snapshot_no_cap_def facility_150_def notna_def)
  from clean_datacenter_data_latest [OF fs_no_cap_latest this] show ?thesis
    by (simp add: clean_datacenter_table_eq snapshot_no_cap_def facility_150_box facility_no_cap_box)
qed

lemma db_no_cap_tables:
  "dim_datacenters (db (connect db_no_cap)) = [dc_example, dc_no_cap]"
  "monthly_dates (dim_date (db (connect db_no_cap))) =
     [\<lparr> date_id = 20230501, full_date = (2023, 5, 1) \<rparr>, \<lparr> date_id = 20230601, full_date = (2023, 6, 1) \<rparr>]"
  "fact_energy_consumption (db (connect db_no_cap)) = []"
  by (simp_all add: connect_def db_no_cap_def db_example_def monthly_dates_def)

lemma dc_no_cap_fields:
  "renewable_energy_pct (cols dc_no_cap) = None" "dc_capacity_mw (cols dc_no_cap) = None"
  "datacenter_id dc_no_cap = 2"
  by (simp_all add: dc_no_cap_def to_datacenter_cols_def clip_renewable_def normalise_state_def
      facility_no_cap_def clip_def)


section \<open>Properties of the full load\<close>

lemma count_orphans_eq:
  "count_orphans d =
     length (filter (\<lambda>ec. cf_datacenter_id ec \<notin> datacenter_id ` set (dim_datacenters d))
               (fact_energy_consumption d))"
proof -
  have row: "length (filter (\<lambda>(ec, dc). dc = None)
        (case filter (\<lambda>dc. cf_datacenter_id ec = datacenter_id dc) dcs of
           [] \<Rightarrow> [(ec, None)] | ms \<Rightarrow> map (\<lambda>dc. (ec, Some dc)) ms)) =
      (if cf_datacenter_id ec \<notin> datacenter_id ` set dcs then 1 else 0)"
    for ec :: consumption_fact and dcs :: "dim_datacenter list"
  proof (cases "filter (\<lambda>dc. cf_datacenter_id ec = datacenter_id dc) dcs")
    case Nil
    then have "cf_datacenter_id ec \<notin> datacenter_id ` set dcs"
      by (auto simp: filter_empty_conv)
    with Nil show ?thesis by simp
  next
    case (Cons m ms)
    then have "m \<in> set (filter (\<lambda>dc. cf_datacenter_id ec = datacenter_id dc) dcs)" by simp
    then have "cf_datacenter_id ec \<in> datacenter_id ` set dcs" by auto
    moreover have "filter (\<lambda>(ec, dc). dc = None) (map (\<lambda>dc. (ec, Some dc)) (m # ms)) = []"
      by (simp add: filter_empty_conv)
    ultimately show ?thesis using Cons by simp
  qed
  have "length (filter (\<lambda>(ec, dc). dc = None) (left_join_datacenters ecs dcs)) =
      length (filter (\<lambda>ec. cf_datacenter_id ec \<notin> datacenter_id ` set dcs) ecs)" for ecs dcs
  proof (induction ecs)
    case Nil
    then show ?case by (simp add: left_join_datacenters_def)
  next
    case (Cons ec ecs)
    have "left_join_datacenters (ec # ecs) dcs =
        (case filter (\<lambda>dc. cf_datacenter_id ec = datacenter_id dc) dcs of
           [] \<Rightarrow> [(ec, None)] | ms \<Rightarrow> map (\<lambda>dc. (ec, Some dc)) ms) @ left_join_datacenters ecs dcs"
      by (simp add: left_join_datacenters_def)
    with Cons row [of ec dcs] show ?case by simp
  qed
  then show ?thesis by (simp add: count_orphans_def)
qed

lemma datacenters_loop_ids:
  assumes "r \<in> set (fst (datacenters_loop rnd dcs dates k))"
  shows "cf_datacenter_id r \<in> datacenter_id ` set dcs"
proof -
  from datacenters_loop_rows [OF assms] obtain dc dt i where
    "dc \<in> set dcs" "r = consumption_record dc dt (rnd i) (rnd (i + 1))"
    by blast
  then show ?thesis by (simp add: consumption_record_def Let_def)
qed

text \<open>What a full load run does to the two tables of the integrity check: it appends
  datacenters, and consumption rows keyed by datacenters of the table.\<close>

lemma run_full_load_tables:
  "\<exists>extra new.
     dim_datacenters (db (fst (snd (run_full_load fs rnd (connect d))))) = dim_datacenters d @ extra \<and>
     fact_energy_consumption (db (fst (snd (run_full_load fs rnd (connect d))))) =
       fact_energy_consumption d @ new \<and>
     (\<forall>r \<in> set new. cf_datacenter_id r \<in> datacenter_id ` set (dim_datacenters d @ extra))"
proof (cases "datacenters_clean fs")
  case None
  then have "db (fst (snd (run_full_load fs rnd (connect d)))) = d"
    by (simp add: run_full_load_def load_datacenters_def on_exception_def conn_close_def
        conn_rollback_def connect_def)
  then show ?thesis by simp
next
  case (Some df)
  let ?extra = "assign_ids (datacenter_id_seq d) (map to_datacenter_cols df)"
  let ?l1 = "to_sql (Append_dim_datacenters (map to_datacenter_cols df)) (connect d)"
  have l1: "load_datacenters fs (connect d) =
      (Inr (length df), ?l1, [Info ''Loading datacenters...'', Count ''Loaded datacenter records'' (length df)])"
    using Some by (simp add: load_datacenters_def Let_def)
  have l1_tables: "dim_datacenters (db ?l1) = dim_datacenters d @ ?extra"
    "fact_energy_consumption (db ?l1) = fact_energy_consumption d" "conn_writes ?l1 = []"
    by (simp_all add: to_sql_def connect_def)
  show ?thesis
  proof (cases "eia_prices_clean fs")
    case None
    then have "db (fst (snd (run_full_load fs rnd (connect d)))) = db ?l1"
      using l1 by (simp add: run_full_load_def load_electricity_prices_def on_exception_def
          conn_close_def conn_rollback_def)
    with l1_tables show ?thesis by simp
  next
    case (Some prices)
    from load_electricity_prices_file [OF Some, of ?l1] obtain n l2 g2 where
      run2: "load_electricity_prices fs ?l1 = (Inr n, l2, g2)"
      and l2_eq: "l2 = ?l1\<lparr> db := (db ?l1)\<lparr> fact_electricity_prices := fact_electricity_prices (db ?l1) @
           concat (map (\<lambda>row. case fetch_date_id (dim_date (db ?l1)) (date row) of
                                  Some i \<Rightarrow> [retail_fact row i] | None \<Rightarrow> []) prices) \<rparr> \<rparr>"
      by blast
    from l2_eq have l2: "dim_datacenters (db l2) = dim_datacenters (db ?l1)"
      "fact_energy_consumption (db l2) = fact_energy_consumption (db ?l1)"
      "conn_writes l2 = conn_writes ?l1"
      by simp_all
    let ?new = "fst (datacenters_loop rnd (dim_datacenters (db l2)) (monthly_dates (dim_date (db l2))) 0)"
    show ?thesis
    proof (cases "dim_datacenters (db l2) \<noteq> [] \<and> monthly_dates (dim_date (db l2)) \<noteq> [] \<and>
        none_objects (map (\<lambda>dc. dc_capacity_mw (cols dc)) (dim_datacenters (db l2)))")
      case True
      from generate_raises [of l2 rnd] True
      have g: "generate_sample_energy_consumption rnd l2 =
          (Inl TypeError, l2,
           [Info ''Generating sample energy consumption data...'',
            Generating (length (dim_datacenters (db l2))) (length (monthly_dates (dim_date (db l2))))])"
        by simp
      have "db (fst (snd (run_full_load fs rnd (connect d)))) = db l2"
        using l1 run2
        by (simp add: run_full_load_def g Let_def on_exception_def conn_close_def conn_rollback_def)
      with l2(1,2) l1_tables(1,2) show ?thesis by simp
    next
      case False
      note g = generate_returns [OF False, of rnd]
      have fin: "db (fst (snd (run_full_load fs rnd (connect d)))) =
          (db l2)\<lparr> fact_energy_consumption := fact_energy_consumption (db l2) @ ?new \<rparr>"
        using l1 run2 l2(3) l1_tables(3)
        by (simp add: run_full_load_def g verify_data_integrity_def
            Let_def conn_close_def conn_commit_def)
      have "\<forall>r \<in> set ?new. cf_datacenter_id r \<in> datacenter_id ` set (dim_datacenters (db l2))"
        using datacenters_loop_ids by blast
      with fin l2(1,2) l1_tables(1,2) show ?thesis by simp
    qed
  qed
qed

text \<open>
  C3. \<open>count_orphans\<close>, the count of the integrity query, is the number of
  consumption rows whose datacenter key is the key of no row of \<open>dim_datacenters\<close>.
  A full load run on a warehouse where this number is zero (an empty consumption table,
  for one) leaves it zero: the run appends datacenters before it generates consumption
  rows, and generates them from the datacenters of the table. \<open>verify_data_integrity\<close>
  leaves the loader and the warehouse as they were and reports the count in its last
  line.
\<close>

theorem full_load_leaves_no_orphans:
  "(count_orphans d = 0 \<longrightarrow>
      count_orphans (db (fst (snd (run_full_load fs rnd (connect d))))) = 0) \<and>
   count_orphans d =
     length (filter (\<lambda>ec. cf_datacenter_id ec \<notin> datacenter_id ` set (dim_datacenters d))
               (fact_energy_consumption d)) \<and>
   fst (snd (verify_data_integrity l)) = l \<and>
   last (snd (snd (verify_data_integrity l))) =
     (if count_orphans (db l) = 0 then Info ''No orphaned energy consumption records''
      else WarningCount ''Found orphaned energy consumption records'' (count_orphans (db l)))"
proof -
  have inv: "count_orphans (db (fst (snd (run_full_load fs rnd (connect d))))) = 0"
    if "count_orphans d = 0"
  proof -
    from run_full_load_tables [of fs rnd d] obtain extra new where
      t: "dim_datacenters (db (fst (snd (run_full_load fs rnd (connect d))))) = dim_datacenters d @ extra"
         "fact_energy_consumption (db (fst (snd (run_full_load fs rnd (connect d))))) =
            fact_energy_consumption d @ new"
         "\<forall>r \<in> set new. cf_datacenter_id r \<in> datacenter_id ` set (dim_datacenters d @ extra)"
      by blast
    from that have old: "\<forall>ec \<in> set (fact_energy_consumption d).
        cf_datacenter_id ec \<in> datacenter_id ` set (dim_datacenters d)"
      by (simp add: count_orphans_eq filter_empty_conv)
    then have "\<forall>ec \<in> set (fact_energy_consumption d).
        cf_datacenter_id ec \<in> datacenter_id ` set (dim_datacenters d @ extra)"
      by auto
    with t show ?thesis
      by (simp add: count_orphans_eq filter_empty_conv)
  qed
  have report: "fst (snd (verify_data_integrity l)) = l"
    "last (snd (snd (verify_data_integrity l))) =
     (if count_orphans (db l) = 0 then Info ''No orphaned energy consumption records''
      else WarningCount ''Found orphaned energy consumption records'' (count_orphans (db l)))"
    by (simp_all add: verify_data_integrity_def Let_def)
  from inv report count_orphans_eq [of d] show ?thesis by blast
qed

lemma db_example_no_orphans: "count_orphans db_example = 0"
  by (simp add: count_orphans_def left_join_datacenters_def db_example_def)

lemma run_full_load_succeeds:
  assumes "datacenters_clean fs = Some df" and "eia_prices_clean fs = Some prices"
    and "dim_datacenters (db l) = []" and "r \<in> set df" and "capacity_mw r \<noteq> None"
  shows "fst (run_full_load fs rnd l) = True"
proof -
  from load_datacenters_file [OF assms(1), of l] obtain l1 g1 where
    l1: "load_datacenters fs l = (Inr (length df), l1, g1)"
      "dim_datacenters (db l1) =
         dim_datacenters (db l) @ assign_ids (datacenter_id_seq (db l)) (map to_datacenter_cols df)"
    by blast
  from load_electricity_prices_file [OF assms(2), of l1] obtain n l2 g2 where
    l2: "load_electricity_prices fs l1 = (Inr n, l2, g2)"
    and l2_eq: "l2 = l1\<lparr> db := (db l1)\<lparr> fact_electricity_prices := fact_electricity_prices (db l1) @
           concat (map (\<lambda>row. case fetch_date_id (dim_date (db l1)) (date row) of
                                  Some i \<Rightarrow> [retail_fact row i] | None \<Rightarrow> []) prices) \<rparr> \<rparr>"
    by blast
  from l2_eq l1(2) assms(3) have dims: "map cols (dim_datacenters (db l2)) = map to_datacenter_cols df"
    by simp
  from assms(4) have "to_datacenter_cols r \<in> set (map cols (dim_datacenters (db l2)))"
    unfolding dims by simp
  then obtain dc where dc: "dc \<in> set (dim_datacenters (db l2))" "cols dc = to_datacenter_cols r"
    by auto
  from dc(2) have "dc_capacity_mw (cols dc) = capacity_mw r"
    by (simp add: to_datacenter_cols_def)
  with assms(5) dc(1) have "\<exists>dc \<in> set (dim_datacenters (db l2)). dc_capacity_mw (cols dc) \<noteq> None"
    by metis
  then have "\<not> (dim_datacenters (db l2) \<noteq> [] \<and> monthly_dates (dim_date (db l2)) \<noteq> [] \<and>
      none_objects (map (\<lambda>dc. dc_capacity_mw (cols dc)) (dim_datacenters (db l2))))"
    by (auto simp: none_objects_iff)
  from generate_returns [OF this, of rnd] l1(1) l2 show ?thesis
    by (simp add: run_full_load_def Let_def split: prod.splits)
qed

theorem full_load_leaves_no_orphans_witness:
  "count_orphans db_example = 0 \<and>
   fst (run_full_load fs_cleaned_example rnd_half (connect db_example)) = True \<and>
   count_orphans (db (fst (snd (run_full_load fs_cleaned_example rnd_half (connect db_example))))) = 0"
proof -
  note h = full_load_leaves_no_orphans [of db_example fs_cleaned_example rnd_half]
  with db_example_no_orphans
  have "count_orphans (db (fst (snd (run_full_load fs_cleaned_example rnd_half (connect db_example))))) = 0"
    by blast
  moreover have "fst (run_full_load fs_cleaned_example rnd_half (connect db_example)) = True"
  proof (rule run_full_load_succeeds)
    show "datacenters_clean fs_cleaned_example = Some [clip_renewable (normalise_state facility_150)]"
      by (simp add: fs_cleaned_example_def)
    show "eia_prices_clean fs_cleaned_example = Some [price_example_row]"
      by (simp add: fs_cleaned_example_def)
    show "dim_datacenters (db (connect db_example)) = []"
      by (simp add: connect_def db_example_def)
    show "clip_renewable (normalise_state facility_150) \<in> set [clip_renewable (normalise_state facility_150)]"
      by simp
    show "capacity_mw (clip_renewable (normalise_state facility_150)) \<noteq> None"
      by (simp add: clip_renewable_def normalise_state_def facility_150_def)
  qed
  ultimately show ?thesis using db_example_no_orphans by blast
qed

text \<open>
  C1. A run in which \<open>datacenters_clean.csv\<close> holds one row and
  \<open>eia_prices_clean.csv\<close> does not exist: \<open>load_datacenters\<close> appends the row through
  the engine, \<open>load_electricity_prices\<close> raises FileNotFoundError, the \<open>except\<close>
  branch reports the error and rolls back \<open>self.conn\<close>, which holds no write. The run
  returns False, the appended datacenter stays in the warehouse, and the script exits
  with status 0.
\<close>

theorem failed_load_keeps_datacenter_rows:
  "datacenters_clean fs_no_prices = Some [clip_renewable (normalise_state facility_150)] \<and>
   eia_prices_clean fs_no_prices = None \<and>
   fst (run_full_load fs_no_prices rnd_half (connect db_example)) = False \<and>
   ErrorDuringLoading FileNotFoundError \<in> set (snd (snd (run_full_load fs_no_prices rnd_half (connect db_example)))) \<and>
   dim_datacenters db_example = [] \<and>
   dim_datacenters (db (fst (snd (run_full_load fs_no_prices rnd_half (connect db_example))))) = [dc_example] \<and>
   db (fst (snd (run_full_load fs_no_prices rnd_half (connect db_example)))) \<noteq> db_example \<and>
   fst (snd (main fs_no_prices rnd_half db_example)) =
     db (fst (snd (run_full_load fs_no_prices rnd_half (connect db_example)))) \<and>
   fst (main fs_no_prices rnd_half db_example) = 0"
proof -
  have run: "run_full_load fs_no_prices rnd_half (connect db_example) =
      (False,
       \<lparr> db = db_example\<lparr> dim_datacenters := [dc_example], datacenter_id_seq := 2 \<rparr>, conn_writes = [] \<rparr>,
       [Info ''Starting Database Loading Process'', Info ''Loading datacenters...'',
        Count ''Loaded datacenter records'' 1, Info ''Loading electricity prices...'',
        ErrorDuringLoading FileNotFoundError, Traceback])"
    by (simp add: run_full_load_def load_datacenters_def load_electricity_prices_def fs_no_prices_def
        on_exception_def conn_close_def conn_rollback_def connect_def to_sql_def db_example_def
        dc_example_def Let_def)
  have before: "dim_datacenters db_example = []"
    by (simp add: db_example_def)
  have after: "dim_datacenters (db (fst (snd (run_full_load fs_no_prices rnd_half (connect db_example))))) = [dc_example]"
    by (simp add: run)
  from before after have changed: "db (fst (snd (run_full_load fs_no_prices rnd_half (connect db_example)))) \<noteq> db_example"
    by auto
  have files: "datacenters_clean fs_no_prices = Some [clip_renewable (normalise_state facility_150)]"
    "eia_prices_clean fs_no_prices = None"
    by (simp_all add: fs_no_prices_def)
  have exit_code: "fst (main fs_no_prices rnd_half db_example) = 0"
    "fst (snd (main fs_no_prices rnd_half db_example)) =
       db (fst (snd (run_full_load fs_no_prices rnd_half (connect db_example))))"
    by (simp_all add: main_def split: prod.splits)
  have failed: "fst (run_full_load fs_no_prices rnd_half (connect db_example)) = False"
    "ErrorDuringLoading FileNotFoundError \<in> set (snd (snd (run_full_load fs_no_prices rnd_half (connect db_example))))"
    by (simp_all add: run)
  from files failed before after changed exit_code show ?thesis by blast
qed

end
